theory Spec2Isabelle
  imports Complex_Main
begin

section \<open>Numbers\<close>

text \<open>
  The simulator computes with JavaScript numbers (IEEE-754 doubles). The embedding
  computes over the real numbers: every literal is the decimal the source writes
  (\<open>1.602e-19\<close> is \<open>1602 / 10 ^ 22\<close>), every operation is exact, and there is neither
  rounding nor overflow. \<open>Math.max\<close>, \<open>Math.min\<close>, \<open>Math.abs\<close>, \<open>Math.sqrt\<close>,
  \<open>Math.exp\<close>, \<open>Math.pow(x, 3)\<close> and \<open>Math.PI\<close> are \<open>max\<close>, \<open>min\<close>, \<open>abs\<close>,
  \<open>sqrt\<close>, \<open>exp\<close>, \<open>x ^ 3\<close> and \<open>pi\<close>.

  Over the reals the only operations of this code that have no value are a division by
  zero and the square root of a negative number (JavaScript gives \<open>Infinity\<close> or
  \<open>NaN\<close> there; HOL gives \<open>x / 0 = 0\<close> and \<open>sqrt (- x) = - sqrt x\<close>). In the
  coefficient model and in \<open>computeElectricField\<close> every divisor is floored above zero
  by the code itself. In \<open>integrateStep\<close> the divisor \<open>drop.mass\<close> and the radicand of
  the noise term are not guarded, so the theorems about \<open>integrateStep\<close> assume that
  the mass used is not zero and that the radicand is not negative.

  The frame duration handed to \<open>update\<close> may be non-finite, so that one input is a
  \<open>jsnum\<close>: a real number or one of the three non-finite doubles.

  One rounding is kept: the number of runs of the sub-stepping loop of \<open>update\<close>
  depends on how the subtraction in \<open>remaining -= stepDt\<close> rounds, so the loop takes
  the subtraction as a parameter \<open>sub\<close>. \<open>rounded_subtraction sub\<close> says that \<open>sub\<close>
  returns the difference with a relative error of at most \<open>2 ^ -53\<close>, which the
  subtraction of doubles does (round to nearest; a difference in the subnormal range is
  exact) and which exact subtraction does too. Termination of the loop then depends on
  \<open>sub\<close>, so the loop is a partial function and returns \<open>None\<close> when it does not end.
\<close>

datatype jsnum = Finite real | PosInfinity | NegInfinity | NaN

fun Number_isFinite :: "jsnum \<Rightarrow> bool" where
  "Number_isFinite (Finite x) = True"
| "Number_isFinite PosInfinity = False"
| "Number_isFinite NegInfinity = False"
| "Number_isFinite NaN = False"

section \<open>Constants of main.js\<close>

definition ELECTRON_CHARGE :: real where
  "ELECTRON_CHARGE = 1602 / 10 ^ 22"

definition OIL_DENSITY :: real where
  "OIL_DENSITY = 860"

definition AIR_DENSITY :: real where
  "AIR_DENSITY = 12 / 10"

definition BOLTZMANN :: real where
  "BOLTZMANN = 1380649 / 10 ^ 29"

definition AIR_MEAN_FREE_PATH :: real where
  "AIR_MEAN_FREE_PATH = 65 / 10 ^ 9"

definition CUNNINGHAM_A :: real where
  "CUNNINGHAM_A = 1257 / 1000"

definition CUNNINGHAM_B :: real where
  "CUNNINGHAM_B = 4 / 10"

definition CUNNINGHAM_C :: real where
  "CUNNINGHAM_C = 11 / 10"

definition MAX_FRAME_DT :: real where
  "MAX_FRAME_DT = 1 / 20"

definition SUBSTEP_DT :: real where
  "SUBSTEP_DT = 1 / 1800"

definition BASE_MAX_SPEED :: real where
  "BASE_MAX_SPEED = 12 / 100"

definition BOUNCE_DAMPING :: real where
  "BOUNCE_DAMPING = 3 / 10"

section \<open>Global state\<close>

text \<open>
  The two global objects \<open>state\<close> and \<open>drop\<close> are records, passed to and returned from
  every function that reads or writes them. A trail entry is the object
  \<open>{ y, alpha }\<close>; its fields are \<open>pt_y\<close> and \<open>pt_alpha\<close> here because \<open>y\<close> is already
  the position field of the drop.
\<close>

record sim_state =
  running :: bool
  voltageKV :: real
  plateGapMeters :: real
  radiusMicrons :: real
  viscosity :: real
  temperatureK :: real
  noiseBoost :: real
  fieldEnabled :: bool
  showTrail :: bool
  showGrid :: bool
  gravity :: real
  pulseTimer :: real
  fieldPolarity :: real

record drop_state =
  y :: real
  velocity :: real
  chargeMultiple :: real
  chargeCoulombs :: real
  radiusMeters :: real
  mass :: real
  slipFactor :: real
  dragCoeff :: real

record trail_point =
  pt_y :: real
  pt_alpha :: real

section \<open>The globals as main.js initialises them\<close>

definition initial_state :: sim_state where
  "initial_state =
     \<lparr>running = True, voltageKV = 2, plateGapMeters = 5 / 1000, radiusMicrons = 9 / 10,
      viscosity = 18 / 10 ^ 6, temperatureK = 295, noiseBoost = 1, fieldEnabled = True,
      showTrail = True, showGrid = True, gravity = 981 / 100, pulseTimer = 0,
      fieldPolarity = 1\<rparr>"

definition initial_drop :: drop_state where
  "initial_drop =
     \<lparr>y = (5 / 1000) * (35 / 100), velocity = 0, chargeMultiple = - 8,
      chargeCoulombs = - 8 * ELECTRON_CHARGE, radiusMeters = 9 / 10 ^ 7, mass = 0,
      slipFactor = 1, dragCoeff = 0\<rparr>"

section \<open>Utilities and the coefficient model\<close>

definition clamp :: "real \<Rightarrow> real \<Rightarrow> real \<Rightarrow> real" where
  "clamp v a b = min (max v a) b"

definition computeSlipCorrection :: "real \<Rightarrow> real" where
  "computeSlipCorrection radius =
     (let r = max radius (5 / 10 ^ 9);
          kn = AIR_MEAN_FREE_PATH / r
      in 1 + kn * (CUNNINGHAM_A + CUNNINGHAM_B * exp (- CUNNINGHAM_C / kn)))"

definition recomputeDropCoefficients :: "sim_state \<Rightarrow> drop_state \<Rightarrow> drop_state" where
  "recomputeDropCoefficients st dr =
     (let r = radiusMicrons st * (1 / 10 ^ 6);
          volume = (4 / 3) * pi * r ^ 3;
          effDensity = max (OIL_DENSITY - AIR_DENSITY) 1;
          m = max (volume * effDensity) (1 / 10 ^ 20);
          s = computeSlipCorrection r
      in dr\<lparr>radiusMeters := r, mass := m, slipFactor := s,
            dragCoeff := (6 * pi * viscosity st * r) / s\<rparr>)"

definition computeElectricField :: "sim_state \<Rightarrow> real" where
  "computeElectricField st =
     (if \<not> fieldEnabled st then 0
      else let gap = max (plateGapMeters st) (1 / 10 ^ 5)
           in (voltageKV st * 1000 * fieldPolarity st) / gap)"

section \<open>The step integrator\<close>

text \<open>
  \<open>integrateStep(dt, E)\<close> reads and writes the globals and draws one random sample.
  Here it takes the state, the drop, \<open>dt\<close>, \<open>E\<close> and the sample that
  \<open>gaussianRandom()\<close> returns in this call, and returns the new drop. Each local
  constant of the source is a definition of its own, in the order of the source, so
  that statements can name the noise term, the speed cap and the position before the
  reflection.

  \<open>gravityForce\<close> and \<open>electricForce\<close> are computed from the drop as it is on entry;
  only then does the source recompute the coefficients when the drag coefficient is not
  usable, and everything after that line reads the drop that results
  (\<open>checkedDrop\<close>). A drop field is a real here, so \<open>Number.isFinite\<close> of it holds.
\<close>

definition gravityForce :: "sim_state \<Rightarrow> drop_state \<Rightarrow> real" where
  "gravityForce st dr = mass dr * gravity st"

definition electricForce :: "drop_state \<Rightarrow> real \<Rightarrow> real" where
  "electricForce dr E = chargeCoulombs dr * E"

definition checkedDrop :: "sim_state \<Rightarrow> drop_state \<Rightarrow> drop_state" where
  "checkedDrop st dr =
     (if \<not> Number_isFinite (Finite (dragCoeff dr)) \<or> dragCoeff dr \<le> 0
      then recomputeDropCoefficients st dr else dr)"

definition dragForce :: "sim_state \<Rightarrow> drop_state \<Rightarrow> real" where
  "dragForce st dr = - dragCoeff (checkedDrop st dr) * velocity (checkedDrop st dr)"

definition noiseStd :: "sim_state \<Rightarrow> drop_state \<Rightarrow> real \<Rightarrow> real" where
  "noiseStd st dr dt =
     (6 / 10) * sqrt ((2 * BOLTZMANN * temperatureK st * dragCoeff (checkedDrop st dr))
                      / max dt (1 / 10 ^ 6))"

definition noiseForce :: "sim_state \<Rightarrow> drop_state \<Rightarrow> real \<Rightarrow> real \<Rightarrow> real" where
  "noiseForce st dr dt sample = noiseBoost st * noiseStd st dr dt * sample"

definition netForce :: "sim_state \<Rightarrow> drop_state \<Rightarrow> real \<Rightarrow> real \<Rightarrow> real \<Rightarrow> real" where
  "netForce st dr dt E sample =
     gravityForce st dr + electricForce dr E + dragForce st dr + noiseForce st dr dt sample"

definition accel :: "sim_state \<Rightarrow> drop_state \<Rightarrow> real \<Rightarrow> real \<Rightarrow> real \<Rightarrow> real" where
  "accel st dr dt E sample = netForce st dr dt E sample / mass (checkedDrop st dr)"

definition eulerVelocity :: "sim_state \<Rightarrow> drop_state \<Rightarrow> real \<Rightarrow> real \<Rightarrow> real \<Rightarrow> real" where
  "eulerVelocity st dr dt E sample =
     velocity (checkedDrop st dr) + accel st dr dt E sample * dt"

definition deterministicNet :: "sim_state \<Rightarrow> drop_state \<Rightarrow> real \<Rightarrow> real" where
  "deterministicNet st dr E = gravityForce st dr + electricForce dr E"

definition vtAnalytic :: "sim_state \<Rightarrow> drop_state \<Rightarrow> real \<Rightarrow> real" where
  "vtAnalytic st dr E =
     (if dragCoeff (checkedDrop st dr) > 0
      then deterministicNet st dr E / dragCoeff (checkedDrop st dr) else 0)"

definition dynamicCap :: "sim_state \<Rightarrow> drop_state \<Rightarrow> real \<Rightarrow> real" where
  "dynamicCap st dr E = max (2 * \<bar>vtAnalytic st dr E\<bar>) (2 / 100)"

definition speedCap :: "sim_state \<Rightarrow> drop_state \<Rightarrow> real \<Rightarrow> real" where
  "speedCap st dr E = max (dynamicCap st dr E) (BASE_MAX_SPEED * (25 / 100))"

definition clampedVelocity :: "sim_state \<Rightarrow> drop_state \<Rightarrow> real \<Rightarrow> real \<Rightarrow> real \<Rightarrow> real" where
  "clampedVelocity st dr dt E sample =
     clamp (eulerVelocity st dr dt E sample) (- speedCap st dr E) (speedCap st dr E)"

definition movedPosition :: "sim_state \<Rightarrow> drop_state \<Rightarrow> real \<Rightarrow> real \<Rightarrow> real \<Rightarrow> real" where
  "movedPosition st dr dt E sample =
     y (checkedDrop st dr) + clampedVelocity st dr dt E sample * dt"

definition integrateStep :: "sim_state \<Rightarrow> drop_state \<Rightarrow> real \<Rightarrow> real \<Rightarrow> real \<Rightarrow> drop_state" where
  "integrateStep st dr dt E sample =
     (let d0 = (checkedDrop st dr)\<lparr>y := movedPosition st dr dt E sample,
                                   velocity := clampedVelocity st dr dt E sample\<rparr>;
          d1 = (if y d0 < 0 then d0\<lparr>y := 0, velocity := velocity d0 * (- BOUNCE_DAMPING)\<rparr>
                else d0);
          maxY = plateGapMeters st;
          d2 = (if y d1 > maxY
                then d1\<lparr>y := maxY, velocity := velocity d1 * (- BOUNCE_DAMPING)\<rparr>
                else d1)
      in d2)"

section \<open>The trail and the frame driver\<close>



text \<open>
  The variables of the sub-stepping loop of \<open>update\<close>: \<open>remaining\<close>, \<open>E\<close>, the two
  globals the body writes, and the number of samples drawn so far. The samples that
  \<open>gaussianRandom()\<close> returns during one call of \<open>update\<close> are given as a function
  \<open>rng\<close> from the index of the draw; \<open>integrateStep\<close> draws exactly one sample per call,
  so \<open>lv_draws\<close> also counts the calls of \<open>integrateStep\<close>.
\<close>

record loop_vars =
  lv_remaining :: real
  lv_E :: real
  lv_state :: sim_state
  lv_drop :: drop_state
  lv_draws :: nat

definition stepDt :: "loop_vars \<Rightarrow> real" where
  "stepDt s = min (lv_remaining s) SUBSTEP_DT"

text \<open>
  The body of the loop subtracts twice, from the pulse timer and from \<open>remaining\<close>,
  with the subtraction \<open>sub\<close> it is given. \<open>rounded_subtraction sub\<close>: the result is
  the difference up to a relative error of \<open>2 ^ -53\<close>.
\<close>

definition rounded_subtraction :: "(real \<Rightarrow> real \<Rightarrow> real) \<Rightarrow> bool" where
  "rounded_subtraction sub \<longleftrightarrow> (\<forall>a b. \<bar>sub a b - (a - b)\<bar> \<le> \<bar>a - b\<bar> / 2 ^ 53)"

definition loopBody ::
  "(real \<Rightarrow> real \<Rightarrow> real) \<Rightarrow> (nat \<Rightarrow> real) \<Rightarrow> loop_vars \<Rightarrow> loop_vars" where
  "loopBody sub rng s =
     (let st0 = lv_state s;
          st1 = st0\<lparr>pulseTimer := max 0 (sub (pulseTimer st0) (stepDt s))\<rparr>;
          st2 = (if pulseTimer st1 = 0 \<and> fieldPolarity st1 \<noteq> 1
                 then st1\<lparr>fieldPolarity := 1\<rparr> else st1);
          E = computeElectricField st2
      in \<lparr>lv_remaining = sub (lv_remaining s) (stepDt s),
          lv_E = E,
          lv_state = st2,
          lv_drop = integrateStep st2 (lv_drop s) (stepDt s) E (rng (lv_draws s)),
          lv_draws = Suc (lv_draws s)\<rparr>)"

partial_function (option) subStepLoop ::
  "(real \<Rightarrow> real \<Rightarrow> real) \<Rightarrow> (nat \<Rightarrow> real) \<Rightarrow> loop_vars \<Rightarrow> loop_vars option" where
  "subStepLoop sub rng s =
     (if lv_remaining s > 0 then subStepLoop sub rng (loopBody sub rng s) else Some s)"

text \<open>
  \<open>update(dt)\<close> on the three globals it touches. It returns the field value \<open>E\<close> and
  the new globals, or \<open>None\<close> when its loop does not end.
\<close>

record world =
  w_state :: sim_state
  w_drop :: drop_state
  w_trail :: "trail_point list"

definition safeDt :: "jsnum \<Rightarrow> real" where
  "safeDt dt =
     (if Number_isFinite dt then (case dt of Finite x \<Rightarrow> max 0 x | _ \<Rightarrow> 0) else 0)"

definition initialLoopVars :: "world \<Rightarrow> real \<Rightarrow> loop_vars" where
  "initialLoopVars w remaining =
     \<lparr>lv_remaining = remaining, lv_E = computeElectricField (w_state w),
      lv_state = w_state w, lv_drop = w_drop w, lv_draws = 0\<rparr>"


text \<open>
  For the statements about the loop: the loop variables as \<open>update\<close> sets them before
  the loop for the frame duration \<open>dt\<close>, and their value after \<open>i\<close> runs of the body.
\<close>

definition loopAfter ::
  "(real \<Rightarrow> real \<Rightarrow> real) \<Rightarrow> (nat \<Rightarrow> real) \<Rightarrow> world \<Rightarrow> jsnum \<Rightarrow> nat \<Rightarrow> loop_vars" where
  "loopAfter sub rng w dt i =
     (loopBody sub rng ^^ i) (initialLoopVars w (min (safeDt dt) MAX_FRAME_DT))"

text \<open>
  For concrete runs: a subtraction that rounds every difference away from zero by the
  largest relative error a double subtraction can make, a sample source (every draw is
  0), and the globals as they are at start.
\<close>

definition coarse_sub :: "real \<Rightarrow> real \<Rightarrow> real" where
  "coarse_sub a b = (a - b) * (1 + 1 / 2 ^ 53)"

definition zero_samples :: "nat \<Rightarrow> real" where
  "zero_samples k = 0"

definition world0 :: world where
  "world0 = \<lparr>w_state = initial_state, w_drop = initial_drop, w_trail = []\<rparr>"

section \<open>The headless run of dev/physics-smoke-test.js\<close>

text \<open>
  The smoke test integrates for \<open>TOTAL\<close> seconds with the loop
  \<open>while (t < TOTAL) { step = Math.min(SUBSTEP_DT, TOTAL - t); E = computeElectricField();
  integrateStep(step, E); t += step; }\<close> after one call of the coefficient model.
  \<open>smokeLoop\<close> is that loop; its arguments are \<open>TOTAL\<close>, \<open>t\<close>, the state, the drop and
  the samples with the index of the next draw.
\<close>

function smokeLoop ::
  "real \<Rightarrow> real \<Rightarrow> sim_state \<Rightarrow> drop_state \<Rightarrow> (nat \<Rightarrow> real) \<Rightarrow> nat \<Rightarrow> drop_state" where
  "smokeLoop TOTAL t st dr rng k =
     (if t < TOTAL
      then let step = min SUBSTEP_DT (TOTAL - t);
               E = computeElectricField st
           in smokeLoop TOTAL (t + step) st (integrateStep st dr step E (rng k)) rng (Suc k)
      else dr)"
  by pat_completeness auto
termination
proof (relation "measure (\<lambda>(TOTAL, t, st, dr, rng, k). nat \<lceil>(TOTAL - t) * 1800\<rceil>)")
  show "wf (measure (\<lambda>(TOTAL, t, st, dr, rng, k). nat \<lceil>(TOTAL - t) * 1800\<rceil>))"
    by simp
next
  fix TOTAL t :: real and st :: sim_state and dr :: drop_state
    and rng :: "nat \<Rightarrow> real" and k :: nat and step E :: real
  assume lt: "t < TOTAL" and step: "step = min SUBSTEP_DT (TOTAL - t)"
  define r where "r = TOTAL - t"
  have r: "0 < r"
    using lt by (simp add: r_def)
  have "\<lceil>(r - min (1 / 1800) r) * 1800\<rceil> < \<lceil>r * 1800\<rceil>"
  proof (cases "r \<le> 1 / 1800")
    case True
    then have "(r - min (1 / 1800) r) * 1800 = 0"
      by simp
    moreover have "0 < \<lceil>r * 1800\<rceil>"
      using r by simp
    ultimately show ?thesis
      by simp
  next
    case False
    then have "(r - min (1 / 1800) r) * 1800 = r * 1800 - 1"
      by (simp add: min_def algebra_simps)
    then show ?thesis
      by simp
  qed
  moreover have "0 < \<lceil>r * 1800\<rceil>"
    using r by simp
  ultimately have "nat \<lceil>(r - min (1 / 1800) r) * 1800\<rceil> < nat \<lceil>r * 1800\<rceil>"
    by linarith
  moreover have "r - min (1 / 1800) r = TOTAL - (t + step)"
    by (simp add: step r_def SUBSTEP_DT_def)
  ultimately have "nat \<lceil>(TOTAL - (t + step)) * 1800\<rceil> < nat \<lceil>(TOTAL - t) * 1800\<rceil>"
    by (simp only: r_def)
  then show "((TOTAL, t + step, st, integrateStep st dr step E (rng k), rng, Suc k),
       (TOTAL, t, st, dr, rng, k))
      \<in> measure (\<lambda>(TOTAL, t, st, dr, rng, k). nat \<lceil>(TOTAL - t) * 1800\<rceil>)"
    by simp
qed

declare smokeLoop.simps [simp del]

section \<open>Two runs without field and without noise\<close>

text \<open>
  The scenario of the specification: radius 0.9 micrometers, viscosity 1.8e-5 Pa s,
  voltage 0 kV with the field disabled, charge multiple -8, temperature 0 K, gap 5 mm,
  the drop at 0.35 of the gap and at rest, its coefficients computed once before the
  run (as the smoke test and \<open>bootstrap\<close> do). The second pair is the free fall of an
  uncharged drop with the noise boost at 0.
\<close>

definition scenario_state :: sim_state where
  "scenario_state = initial_state\<lparr>voltageKV := 0, temperatureK := 0, fieldEnabled := False\<rparr>"

definition scenario_drop :: drop_state where
  "scenario_drop = recomputeDropCoefficients scenario_state initial_drop"

definition freefall_state :: sim_state where
  "freefall_state = initial_state\<lparr>noiseBoost := 0, fieldEnabled := False\<rparr>"

definition freefall_drop :: drop_state where
  "freefall_drop =
     (recomputeDropCoefficients freefall_state initial_drop)
       \<lparr>chargeMultiple := 0, chargeCoulombs := 0\<rparr>"

text \<open>
  The free fall after \<open>n\<close> sub-steps of 1/1800 s, every draw being 0.
\<close>

primrec freefall_after :: "nat \<Rightarrow> drop_state" where
  "freefall_after 0 = freefall_drop"
| "freefall_after (Suc n) =
     integrateStep freefall_state (freefall_after n) (1 / 1800)
       (computeElectricField freefall_state) (zero_samples n)"

text \<open>
  What the two runs have in common: no noise force, no field, g = 9.81, a gap of 5 mm,
  and a drop whose drag coefficient times the sub-step 1/1800 s is at least 8 times its
  mass.
\<close>

definition stiff_quiet :: "sim_state \<Rightarrow> drop_state \<Rightarrow> bool" where
  "stiff_quiet st d \<longleftrightarrow>
     (noiseBoost st = 0 \<or> temperatureK st = 0) \<and> computeElectricField st = 0
     \<and> gravity st = 981 / 100 \<and> plateGapMeters st = 5 / 1000
     \<and> 0 < mass d \<and> 0 < dragCoeff d \<and> 8 * mass d \<le> dragCoeff d / 1800"

text \<open>
  The two positions between which the scenario run alternates from its second sub-step
  on: the start plus \<open>g * dt * dt\<close>, and that minus \<open>0.03 * dt\<close>.
\<close>

definition posOdd :: real where
  "posOdd = 7 / 4000 + 981 / 180000 / 1800"

definition posEven :: real where
  "posEven = 7 / 4000 + 981 / 180000 / 1800 - 3 / 100 / 1800"

section \<open>The coefficient model as the specification words it\<close>

text \<open>
  The three results of the coefficient model written from the specification's formulas,
  as functions of the radius in meters and the viscosity, to be compared with what
  \<open>recomputeDropCoefficients\<close> stores.
\<close>

definition spec_mass :: "real \<Rightarrow> real" where
  "spec_mass r = max ((4 / 3) * pi * r ^ 3 * max (860 - 12 / 10) 1) (1 / 10 ^ 20)"

definition spec_Kn :: "real \<Rightarrow> real" where
  "spec_Kn r = (65 / 10 ^ 9) / max r (5 / 10 ^ 9)"

definition spec_slipFactor :: "real \<Rightarrow> real" where
  "spec_slipFactor r = 1 + spec_Kn r * (1257 / 1000 + (4 / 10) * exp (- (11 / 10) / spec_Kn r))"

definition spec_dragCoeff :: "real \<Rightarrow> real \<Rightarrow> real" where
  "spec_dragCoeff r mu = 6 * pi * mu * r / spec_slipFactor r"

section \<open>Facts about the coefficient model\<close>

lemma computeSlipCorrection_ge_1: "1 \<le> computeSlipCorrection r"
proof -
  define kn where "kn = AIR_MEAN_FREE_PATH / max r (5 / 10 ^ 9)"
  have "0 < max r (5 / 10 ^ 9)"
    by (simp add: max_def)
  then have kn: "0 \<le> kn"
    by (simp add: kn_def AIR_MEAN_FREE_PATH_def)
  have "0 \<le> CUNNINGHAM_A + CUNNINGHAM_B * exp (- CUNNINGHAM_C / kn)"
    by (simp add: CUNNINGHAM_A_def CUNNINGHAM_B_def)
  with kn have "0 \<le> kn * (CUNNINGHAM_A + CUNNINGHAM_B * exp (- CUNNINGHAM_C / kn))"
    by (rule mult_nonneg_nonneg)
  then show ?thesis
    unfolding computeSlipCorrection_def Let_def kn_def by linarith
qed

lemma recompute_mass: "mass (recomputeDropCoefficients st dr)
    = max ((4 / 3) * pi * (radiusMicrons st * (1 / 10 ^ 6)) ^ 3
           * max (OIL_DENSITY - AIR_DENSITY) 1) (1 / 10 ^ 20)"
  by (simp add: recomputeDropCoefficients_def Let_def)

lemma recompute_mass_pos: "0 < mass (recomputeDropCoefficients st dr)"
proof -
  have "(0::real) < 1 / 10 ^ 20"
    by simp
  also have "\<dots> \<le> mass (recomputeDropCoefficients st dr)"
    unfolding recompute_mass by (rule max.cobounded2)
  finally show ?thesis .
qed

lemma recompute_slip: "slipFactor (recomputeDropCoefficients st dr)
    = computeSlipCorrection (radiusMicrons st * (1 / 10 ^ 6))"
  by (simp add: recomputeDropCoefficients_def Let_def)

lemma recompute_dragCoeff: "dragCoeff (recomputeDropCoefficients st dr)
    = 6 * pi * viscosity st * (radiusMicrons st * (1 / 10 ^ 6))
      / computeSlipCorrection (radiusMicrons st * (1 / 10 ^ 6))"
  by (simp add: recomputeDropCoefficients_def Let_def)

lemma recompute_dragCoeff_pos:
  assumes "0 < viscosity st" and "0 < radiusMicrons st"
  shows "0 < dragCoeff (recomputeDropCoefficients st dr)"
proof -
  have "0 < computeSlipCorrection (radiusMicrons st * (1 / 10 ^ 6))"
    using computeSlipCorrection_ge_1 [of "radiusMicrons st * (1 / 10 ^ 6)"] by linarith
  then show ?thesis
    using assms by (simp add: recompute_dragCoeff)
qed

text \<open>
  C3. For every radius r (meters; the code takes it as \<open>radiusMicrons * 1e-6\<close>) and
  viscosity mu, the coefficient model stores
  mass = max((4/3) pi r^3 * max(oilDensity - airDensity, 1), 1e-20),
  slip factor = 1 + Kn (1.257 + 0.4 exp(-1.1 / Kn)) with Kn = meanFreePath / max(r, 5e-9),
  and drag coefficient = 6 pi mu r / slipFactor.
\<close>

theorem coefficient_model_formulas:
  "radiusMeters (recomputeDropCoefficients st dr) = radiusMicrons st * (1 / 10 ^ 6)
   \<and> mass (recomputeDropCoefficients st dr) = spec_mass (radiusMicrons st * (1 / 10 ^ 6))
   \<and> slipFactor (recomputeDropCoefficients st dr)
       = spec_slipFactor (radiusMicrons st * (1 / 10 ^ 6))
   \<and> dragCoeff (recomputeDropCoefficients st dr)
       = spec_dragCoeff (radiusMicrons st * (1 / 10 ^ 6)) (viscosity st)"
  by (simp add: recomputeDropCoefficients_def computeSlipCorrection_def Let_def
      spec_mass_def spec_Kn_def spec_slipFactor_def spec_dragCoeff_def
      OIL_DENSITY_def AIR_DENSITY_def AIR_MEAN_FREE_PATH_def
      CUNNINGHAM_A_def CUNNINGHAM_B_def CUNNINGHAM_C_def)

text \<open>
  C4. For every radius in [0.3, 1.5] micrometers and every viscosity in
  [1e-5, 3e-5] Pa s, the coefficient model returns mass > 0, dragCoeff > 0 and
  slipFactor >= 1.
\<close>

theorem coefficient_model_positive:
  assumes "3 / 10 \<le> radiusMicrons st" and "radiusMicrons st \<le> 15 / 10"
    and "1 / 10 ^ 5 \<le> viscosity st" and "viscosity st \<le> 3 / 10 ^ 5"
  shows "0 < mass (recomputeDropCoefficients st dr)
       \<and> 0 < dragCoeff (recomputeDropCoefficients st dr)
       \<and> 1 \<le> slipFactor (recomputeDropCoefficients st dr)"
proof -
  have "0 < viscosity st" and "0 < radiusMicrons st"
    using assms by simp_all
  then show ?thesis
    by (simp add: recompute_mass_pos recompute_dragCoeff_pos recompute_slip
        computeSlipCorrection_ge_1)
qed

theorem coefficient_model_positive_witness:
  "3 / 10 \<le> radiusMicrons initial_state \<and> radiusMicrons initial_state \<le> 15 / 10
   \<and> 1 / 10 ^ 5 \<le> viscosity initial_state \<and> viscosity initial_state \<le> 3 / 10 ^ 5
   \<and> 0 < mass (recomputeDropCoefficients initial_state initial_drop)
   \<and> 0 < dragCoeff (recomputeDropCoefficients initial_state initial_drop)
   \<and> 1 \<le> slipFactor (recomputeDropCoefficients initial_state initial_drop)"
  using coefficient_model_positive [of initial_state initial_drop]
  by (simp add: initial_state_def)

section \<open>Facts about one step\<close>

lemma checkedDrop_keeps: "0 < dragCoeff dr \<Longrightarrow> checkedDrop st dr = dr"
  by (simp add: checkedDrop_def)

lemma checkedDrop_initial:
  "checkedDrop initial_state initial_drop
     = recomputeDropCoefficients initial_state initial_drop"
  by (simp add: checkedDrop_def initial_drop_def)

lemma initial_recompute_dragCoeff_pos:
  "0 < dragCoeff (recomputeDropCoefficients initial_state initial_drop)"
  by (rule recompute_dragCoeff_pos) (simp_all add: initial_state_def)

lemma initial_step_defined:
  "mass (checkedDrop initial_state initial_drop) \<noteq> 0"
  "0 \<le> temperatureK initial_state * dragCoeff (checkedDrop initial_state initial_drop)"
proof -
  show "mass (checkedDrop initial_state initial_drop) \<noteq> 0"
    using recompute_mass_pos [of initial_state initial_drop]
    by (simp add: checkedDrop_initial)
  have "0 \<le> temperatureK initial_state"
    by (simp add: initial_state_def)
  then show "0 \<le> temperatureK initial_state * dragCoeff (checkedDrop initial_state initial_drop)"
    using initial_recompute_dragCoeff_pos by (simp add: checkedDrop_initial)
qed

lemma clamp_abs: "0 \<le> c \<Longrightarrow> \<bar>clamp v (- c) c\<bar> \<le> c"
  unfolding clamp_def min_def max_def by (auto simp add: abs_if)

lemma speedCap_nonneg: "0 \<le> speedCap st dr E"
  by (simp add: speedCap_def dynamicCap_def max_def)

lemma integrateStep_velocity_cases:
  "velocity (integrateStep st dr dt E sample) = clampedVelocity st dr dt E sample
   \<or> velocity (integrateStep st dr dt E sample)
       = clampedVelocity st dr dt E sample * (- BOUNCE_DAMPING)
   \<or> velocity (integrateStep st dr dt E sample)
       = clampedVelocity st dr dt E sample * (- BOUNCE_DAMPING) * (- BOUNCE_DAMPING)"
  by (simp add: integrateStep_def Let_def)

section \<open>The claims about one step\<close>

text \<open>
  C1. For every sub-step of \<open>integrateStep\<close>, whatever the position and the velocity of
  the drop before the step, the position after the step lies in [0, plateGap]; when the
  position before the reflection is below 0 the step sets the position to 0 and
  multiplies the velocity by -0.3, and when it exceeds the gap the step sets the
  position to the gap and multiplies the velocity by -0.3. The gap is not negative (the
  data model keeps it in [2 mm, 10 mm]), and the step computes with real numbers (the
  mass it divides by is not zero, the radicand of the noise term is not negative).
\<close>

theorem integrateStep_position_bounds:
  assumes "0 \<le> plateGapMeters st"
    and "mass (checkedDrop st dr) \<noteq> 0"
    and "0 \<le> temperatureK st * dragCoeff (checkedDrop st dr)"
  shows "0 \<le> y (integrateStep st dr dt E sample)
       \<and> y (integrateStep st dr dt E sample) \<le> plateGapMeters st
       \<and> (movedPosition st dr dt E sample < 0 \<longrightarrow>
            y (integrateStep st dr dt E sample) = 0
            \<and> velocity (integrateStep st dr dt E sample)
                = clampedVelocity st dr dt E sample * (- (3 / 10)))
       \<and> (movedPosition st dr dt E sample > plateGapMeters st \<longrightarrow>
            y (integrateStep st dr dt E sample) = plateGapMeters st
            \<and> velocity (integrateStep st dr dt E sample)
                = clampedVelocity st dr dt E sample * (- (3 / 10)))"
  using assms(1) by (simp add: integrateStep_def Let_def BOUNCE_DAMPING_def)

theorem integrateStep_position_bounds_witness:
  "0 \<le> plateGapMeters initial_state
   \<and> mass (checkedDrop initial_state initial_drop) \<noteq> 0
   \<and> 0 \<le> temperatureK initial_state * dragCoeff (checkedDrop initial_state initial_drop)
   \<and> 0 \<le> y (integrateStep initial_state initial_drop (1 / 1800) 400000 1)
   \<and> y (integrateStep initial_state initial_drop (1 / 1800) 400000 1)
       \<le> plateGapMeters initial_state"
proof -
  have gap: "0 \<le> plateGapMeters initial_state"
    by (simp add: initial_state_def)
  show ?thesis
    using gap initial_step_defined
      integrateStep_position_bounds [OF gap initial_step_defined, of "1 / 1800" 400000 1]
    by simp
qed

text \<open>
  C2 as stated fails below one microsecond: \<open>integrateStep\<close> divides by
  \<open>Math.max(dt, 1e-6)\<close>, so at \<open>dt = 1e-7\<close> (a last sub-step of a frame can be that
  short) the standard deviation is not \<open>0.6 * sqrt(2 kB T dragCoeff / dt)\<close>.
\<close>

theorem noiseStd_small_dt_counterexample:
  "(0::real) < 1 / 10 ^ 7 \<and> (1::real) / 10 ^ 7 \<le> 1 / 1800
   \<and> noiseStd initial_state (recomputeDropCoefficients initial_state initial_drop) (1 / 10 ^ 7)
       \<noteq> (6 / 10) * sqrt (2 * BOLTZMANN * temperatureK initial_state
             * dragCoeff (checkedDrop initial_state
                 (recomputeDropCoefficients initial_state initial_drop)) / (1 / 10 ^ 7))"
proof -
  define c where "c = dragCoeff (recomputeDropCoefficients initial_state initial_drop)"
  have c: "0 < c"
    unfolding c_def by (rule initial_recompute_dragCoeff_pos)
  have keep: "checkedDrop initial_state (recomputeDropCoefficients initial_state initial_drop)
      = recomputeDropCoefficients initial_state initial_drop"
    by (rule checkedDrop_keeps [OF initial_recompute_dragCoeff_pos])
  have T: "temperatureK initial_state = 295"
    by (simp add: initial_state_def)
  have "2 * BOLTZMANN * 295 * c / (1 / 10 ^ 6) \<noteq> 2 * BOLTZMANN * 295 * c / (1 / 10 ^ 7)"
    using c by (simp add: BOLTZMANN_def)
  then have "sqrt (2 * BOLTZMANN * 295 * c / (1 / 10 ^ 6))
      \<noteq> sqrt (2 * BOLTZMANN * 295 * c / (1 / 10 ^ 7))"
    by (simp only: real_sqrt_eq_iff not_False_eq_True)
  then show ?thesis
    by (simp add: noiseStd_def keep T c_def)
qed

text \<open>
  C2, amended. For every sub-step duration dt with 0 < dt <= 1/1800 s the standard
  deviation of the thermal noise is 0.6 * sqrt(2 kB T dragCoeff / max(dt, 1e-6)): for
  dt >= 1e-6 s it is exactly 0.6 * sqrt(2 kB T dragCoeff / dt), which is
  0.6 * sqrt(2 kB T dragCoeff) / sqrt(dt), and for dt < 1e-6 s the divisor is floored
  at 1e-6 s and the deviation no longer grows. The noise force added to the net force is
  noiseBoost * noiseStd * sample.
\<close>

theorem noise_term_floored:
  assumes "0 < dt" and "dt \<le> 1 / 1800"
  shows "noiseStd st dr dt
       = (6 / 10) * sqrt (2 * BOLTZMANN * temperatureK st * dragCoeff (checkedDrop st dr)
                          / max dt (1 / 10 ^ 6))
     \<and> (if 1 / 10 ^ 6 \<le> dt
        then noiseStd st dr dt
               = (6 / 10) * sqrt (2 * BOLTZMANN * temperatureK st
                                  * dragCoeff (checkedDrop st dr) / dt)
             \<and> noiseStd st dr dt
               = (6 / 10) * sqrt (2 * BOLTZMANN * temperatureK st
                                  * dragCoeff (checkedDrop st dr)) / sqrt dt
        else noiseStd st dr dt
               = (6 / 10) * sqrt (2 * BOLTZMANN * temperatureK st
                                  * dragCoeff (checkedDrop st dr) / (1 / 10 ^ 6)))
     \<and> noiseForce st dr dt sample = noiseBoost st * noiseStd st dr dt * sample
     \<and> netForce st dr dt E sample
         = gravityForce st dr + electricForce dr E + dragForce st dr
           + noiseBoost st * noiseStd st dr dt * sample"
  by (simp add: noiseStd_def noiseForce_def netForce_def max_def real_sqrt_divide)

theorem noise_term_floored_witness:
  "(0::real) < 1 / 1800 \<and> (1::real) / 1800 \<le> 1 / 1800
   \<and> noiseStd initial_state initial_drop (1 / 1800)
       = (6 / 10) * sqrt (2 * BOLTZMANN * temperatureK initial_state
                          * dragCoeff (checkedDrop initial_state initial_drop) / (1 / 1800))
   \<and> noiseForce initial_state initial_drop (1 / 1800) 1
       = noiseBoost initial_state * noiseStd initial_state initial_drop (1 / 1800) * 1"
  using noise_term_floored [of "1 / 1800" initial_state initial_drop 1 400000]
  by simp

section \<open>The slip factor as a function of the radius\<close>

lemma slip_unfold:
  "computeSlipCorrection r
     = 1 + AIR_MEAN_FREE_PATH / max r (5 / 10 ^ 9)
           * (CUNNINGHAM_A + CUNNINGHAM_B
                * exp (- (CUNNINGHAM_C * max r (5 / 10 ^ 9) / AIR_MEAN_FREE_PATH)))"
  by (simp add: computeSlipCorrection_def Let_def AIR_MEAN_FREE_PATH_def)

lemma computeSlipCorrection_antimono:
  assumes "r1 \<le> r2"
  shows "computeSlipCorrection r2 \<le> computeSlipCorrection r1"
proof -
  define a where "a = max r1 (5 / 10 ^ 9)"
  define b where "b = max r2 (5 / 10 ^ 9)"
  have a: "0 < a" and ab: "a \<le> b"
    using assms by (simp_all add: a_def b_def max_def)
  have b: "0 < b"
    using a ab by linarith
  have kn: "AIR_MEAN_FREE_PATH / b \<le> AIR_MEAN_FREE_PATH / a"
    using a ab by (simp add: AIR_MEAN_FREE_PATH_def frac_le)
  have "CUNNINGHAM_C * a / AIR_MEAN_FREE_PATH \<le> CUNNINGHAM_C * b / AIR_MEAN_FREE_PATH"
    using ab by (simp add: CUNNINGHAM_C_def AIR_MEAN_FREE_PATH_def)
  then have "exp (- (CUNNINGHAM_C * b / AIR_MEAN_FREE_PATH))
      \<le> exp (- (CUNNINGHAM_C * a / AIR_MEAN_FREE_PATH))"
    by simp
  then have br: "CUNNINGHAM_A + CUNNINGHAM_B * exp (- (CUNNINGHAM_C * b / AIR_MEAN_FREE_PATH))
      \<le> CUNNINGHAM_A + CUNNINGHAM_B * exp (- (CUNNINGHAM_C * a / AIR_MEAN_FREE_PATH))"
    by (simp add: CUNNINGHAM_B_def)
  have nn1: "0 \<le> AIR_MEAN_FREE_PATH / a"
    using a by (simp add: AIR_MEAN_FREE_PATH_def)
  have nn2: "0 \<le> CUNNINGHAM_A + CUNNINGHAM_B * exp (- (CUNNINGHAM_C * b / AIR_MEAN_FREE_PATH))"
    by (simp add: CUNNINGHAM_A_def CUNNINGHAM_B_def)
  have "AIR_MEAN_FREE_PATH / b
          * (CUNNINGHAM_A + CUNNINGHAM_B * exp (- (CUNNINGHAM_C * b / AIR_MEAN_FREE_PATH)))
      \<le> AIR_MEAN_FREE_PATH / a
          * (CUNNINGHAM_A + CUNNINGHAM_B * exp (- (CUNNINGHAM_C * a / AIR_MEAN_FREE_PATH)))"
    by (rule mult_mono [OF kn br nn1 nn2]) 
  then show ?thesis
    unfolding slip_unfold a_def b_def by linarith
qed

lemma computeSlipCorrection_upper:
  assumes "5 / 10 ^ 9 \<le> r"
  shows "computeSlipCorrection r \<le> 1 + (AIR_MEAN_FREE_PATH * (CUNNINGHAM_A + CUNNINGHAM_B)) / r"
proof -
  have r: "0 < r"
    using assms by (simp add: order.strict_trans2 [OF _ assms])
  have m: "max r (5 / 10 ^ 9) = r"
    using assms by (simp add: max_def)
  have "exp (- (CUNNINGHAM_C * r / AIR_MEAN_FREE_PATH)) \<le> 1"
    using r by (simp add: CUNNINGHAM_C_def AIR_MEAN_FREE_PATH_def)
  then have "CUNNINGHAM_A + CUNNINGHAM_B * exp (- (CUNNINGHAM_C * r / AIR_MEAN_FREE_PATH))
      \<le> CUNNINGHAM_A + CUNNINGHAM_B"
    by (simp add: CUNNINGHAM_B_def)
  moreover have "0 \<le> AIR_MEAN_FREE_PATH / r"
    using r by (simp add: AIR_MEAN_FREE_PATH_def)
  ultimately have "AIR_MEAN_FREE_PATH / r
        * (CUNNINGHAM_A + CUNNINGHAM_B * exp (- (CUNNINGHAM_C * r / AIR_MEAN_FREE_PATH)))
      \<le> AIR_MEAN_FREE_PATH / r * (CUNNINGHAM_A + CUNNINGHAM_B)"
    by (rule mult_left_mono)
  then show ?thesis
    unfolding slip_unfold m by simp
qed

lemma computeSlipCorrection_tendsto: "(computeSlipCorrection \<longlongrightarrow> 1) at_top"
proof (rule tendsto_sandwich)
  show "eventually (\<lambda>r. 1 \<le> computeSlipCorrection r) at_top"
    by (simp add: computeSlipCorrection_ge_1)
  show "eventually (\<lambda>r. computeSlipCorrection r
      \<le> 1 + (AIR_MEAN_FREE_PATH * (CUNNINGHAM_A + CUNNINGHAM_B)) / r) at_top"
    unfolding eventually_at_top_linorder
    using computeSlipCorrection_upper by blast
  show "((\<lambda>r::real. 1) \<longlongrightarrow> 1) at_top"
    by simp
  have "((\<lambda>r::real. (AIR_MEAN_FREE_PATH * (CUNNINGHAM_A + CUNNINGHAM_B)) / r) \<longlongrightarrow> 0) at_top"
    by (rule real_tendsto_divide_at_top [OF tendsto_const filterlim_ident])
  then have "((\<lambda>r::real. 1 + (AIR_MEAN_FREE_PATH * (CUNNINGHAM_A + CUNNINGHAM_B)) / r)
      \<longlongrightarrow> 1 + 0) at_top"
    by (rule tendsto_add [OF tendsto_const])
  then show "((\<lambda>r::real. 1 + (AIR_MEAN_FREE_PATH * (CUNNINGHAM_A + CUNNINGHAM_B)) / r)
      \<longlongrightarrow> 1) at_top"
    by simp
qed

lemma micron_scale_at_top: "filterlim (\<lambda>r::real. r * (1 / 10 ^ 6)) at_top at_top"
  by (rule filterlim_tendsto_pos_mult_at_top [OF tendsto_const _ filterlim_ident, of "1 / 10 ^ 6", simplified mult.commute]) simp

text \<open>
  C8. Whatever the viscosity, the slip factor of the coefficient model does not
  increase when the radius increases (for radii r2 > r1, slipFactor(r2) <= slipFactor(r1)),
  and it tends to 1 as the radius tends to infinity. Both are stated for
  \<open>computeSlipCorrection\<close> (radius in meters) and for the slip factor that
  \<open>recomputeDropCoefficients\<close> stores (radius in micrometers, any two states, so any
  viscosities).
\<close>

theorem slip_factor_decreasing_to_one:
  "(r1 < r2 \<longrightarrow> computeSlipCorrection r2 \<le> computeSlipCorrection r1)
   \<and> (radiusMicrons st1 < radiusMicrons st2 \<longrightarrow>
        slipFactor (recomputeDropCoefficients st2 dr2)
          \<le> slipFactor (recomputeDropCoefficients st1 dr1))
   \<and> (computeSlipCorrection \<longlongrightarrow> 1) at_top
   \<and> ((\<lambda>r. slipFactor (recomputeDropCoefficients (st\<lparr>radiusMicrons := r\<rparr>) dr))
        \<longlongrightarrow> 1) at_top"
proof -
  have "((\<lambda>r. computeSlipCorrection (r * (1 / 10 ^ 6))) \<longlongrightarrow> 1) at_top"
    by (rule filterlim_compose [OF computeSlipCorrection_tendsto micron_scale_at_top])
  then have "((\<lambda>r. slipFactor (recomputeDropCoefficients (st\<lparr>radiusMicrons := r\<rparr>) dr))
        \<longlongrightarrow> 1) at_top"
    by (simp add: recompute_slip)
  then show ?thesis
    by (simp add: computeSlipCorrection_antimono computeSlipCorrection_tendsto recompute_slip)
qed

theorem slip_factor_decreasing_to_one_witness:
  "(3::real) / 10 ^ 7 < 15 / 10 ^ 7
   \<and> computeSlipCorrection (15 / 10 ^ 7) \<le> computeSlipCorrection (3 / 10 ^ 7)"
  using slip_factor_decreasing_to_one [of "3 / 10 ^ 7" "15 / 10 ^ 7"]
  by simp

section \<open>Steps without field and without noise\<close>

lemma quiet_eulerVelocity:
  assumes "0 < mass dr" and "0 < dragCoeff dr"
    and "noiseBoost st = 0 \<or> temperatureK st = 0"
    and "E = 0 \<or> chargeCoulombs dr = 0"
  shows "eulerVelocity st dr dt E sample
       = velocity dr + (gravity st - dragCoeff dr * velocity dr / mass dr) * dt"
proof -
  have k: "checkedDrop st dr = dr"
    by (rule checkedDrop_keeps [OF assms(2)])
  have n: "noiseForce st dr dt sample = 0"
    using assms(3) by (auto simp add: noiseForce_def noiseStd_def)
  have e: "electricForce dr E = 0"
    using assms(4) by (auto simp add: electricForce_def)
  have "netForce st dr dt E sample = mass dr * gravity st - dragCoeff dr * velocity dr"
    by (simp add: netForce_def n e gravityForce_def dragForce_def k)
  then have "accel st dr dt E sample = gravity st - dragCoeff dr * velocity dr / mass dr"
    using assms(1) by (simp add: accel_def k diff_divide_distrib)
  then show ?thesis
    by (simp add: eulerVelocity_def k)
qed

lemma integrateStep_inside:
  assumes "0 \<le> movedPosition st dr dt E sample"
    and "movedPosition st dr dt E sample \<le> plateGapMeters st"
  shows "integrateStep st dr dt E sample
       = (checkedDrop st dr)\<lparr>y := movedPosition st dr dt E sample,
                               velocity := clampedVelocity st dr dt E sample\<rparr>"
  using assms by (simp add: integrateStep_def Let_def)

lemma clamp_low: "v \<le> a \<Longrightarrow> a \<le> b \<Longrightarrow> clamp v a b = a"
  by (simp add: clamp_def)

lemma clamp_high: "b \<le> v \<Longrightarrow> a \<le> b \<Longrightarrow> clamp v a b = b"
  by (simp add: clamp_def)

section \<open>The default drop\<close>

lemma default_slip_le_2: "computeSlipCorrection (9 / 10 ^ 7) \<le> 2"
proof -
  have "computeSlipCorrection (9 / 10 ^ 7)
      \<le> 1 + (AIR_MEAN_FREE_PATH * (CUNNINGHAM_A + CUNNINGHAM_B)) / (9 / 10 ^ 7)"
    by (rule computeSlipCorrection_upper) simp
  also have "\<dots> \<le> 2"
    by (simp add: AIR_MEAN_FREE_PATH_def CUNNINGHAM_A_def CUNNINGHAM_B_def)
  finally show ?thesis .
qed

lemma default_mass:
  assumes "radiusMicrons st = 9 / 10"
  shows "mass (recomputeDropCoefficients st dr) = pi * (8347536 / 10 ^ 22)"
proof -
  have "(1::real) / 10 ^ 20 \<le> 2 * (8347536 / 10 ^ 22)"
    by simp
  also have "\<dots> \<le> pi * (8347536 / 10 ^ 22)"
    using pi_ge_two by (intro mult_right_mono) simp_all
  finally have le: "(1::real) / 10 ^ 20 \<le> pi * (8347536 / 10 ^ 22)" .
  have e: "(4 / 3) * pi * (9 / 10 * (1 / 10 ^ 6)) ^ 3 * max (OIL_DENSITY - AIR_DENSITY) 1
      = pi * (8347536 / 10 ^ 22)"
    by (simp add: OIL_DENSITY_def AIR_DENSITY_def power3_eq_cube)
  have "mass (recomputeDropCoefficients st dr) = max (pi * (8347536 / 10 ^ 22)) (1 / 10 ^ 20)"
    unfolding recompute_mass assms e ..
  also have "\<dots> = pi * (8347536 / 10 ^ 22)"
    using le by (rule max_absorb1)
  finally show ?thesis .
qed

lemma default_dragCoeff:
  assumes "radiusMicrons st = 9 / 10" and "viscosity st = 18 / 10 ^ 6"
  shows "dragCoeff (recomputeDropCoefficients st dr)
       = pi * (972 / 10 ^ 13) / computeSlipCorrection (9 / 10 ^ 7)"
  by (simp add: recompute_dragCoeff assms)

lemma default_stiff:
  assumes "radiusMicrons st = 9 / 10" and "viscosity st = 18 / 10 ^ 6"
  shows "8 * mass (recomputeDropCoefficients st dr)
       \<le> dragCoeff (recomputeDropCoefficients st dr) / 1800"
proof -
  let ?s = "computeSlipCorrection (9 / 10 ^ 7)"
  have s1: "0 < ?s"
    using computeSlipCorrection_ge_1 [of "9 / 10 ^ 7"] by linarith
  have "8 * (8347536 / 10 ^ 22) * ?s \<le> 8 * (8347536 / 10 ^ 22) * (2::real)"
    using default_slip_le_2 by (intro mult_left_mono) simp_all
  also have "\<dots> \<le> 972 / 10 ^ 13 / 1800"
    by simp
  finally have "8 * (8347536 / 10 ^ 22) \<le> 972 / 10 ^ 13 / 1800 / ?s"
    using s1 by (simp add: pos_le_divide_eq)
  then have "pi * (8 * (8347536 / 10 ^ 22)) \<le> pi * (972 / 10 ^ 13 / 1800 / ?s)"
    by (intro mult_left_mono) simp_all
  then show ?thesis
    unfolding default_mass [OF assms(1)] default_dragCoeff [OF assms] by (simp add: algebra_simps)
qed

lemma scenario_stiff_quiet: "stiff_quiet scenario_state scenario_drop"
proof -
  have r: "radiusMicrons scenario_state = 9 / 10" and v: "viscosity scenario_state = 18 / 10 ^ 6"
    by (simp_all add: scenario_state_def initial_state_def)
  have "0 < dragCoeff scenario_drop"
    unfolding scenario_drop_def by (rule recompute_dragCoeff_pos) (simp_all add: r v)
  moreover have "0 < mass scenario_drop"
    unfolding scenario_drop_def by (rule recompute_mass_pos)
  moreover have "8 * mass scenario_drop \<le> dragCoeff scenario_drop / 1800"
    unfolding scenario_drop_def by (rule default_stiff [OF r v])
  ultimately show ?thesis
    by (simp add: stiff_quiet_def scenario_state_def initial_state_def computeElectricField_def)
qed

lemma freefall_stiff_quiet: "stiff_quiet freefall_state freefall_drop"
proof -
  have r: "radiusMicrons freefall_state = 9 / 10" and v: "viscosity freefall_state = 18 / 10 ^ 6"
    by (simp_all add: freefall_state_def initial_state_def)
  have "0 < dragCoeff (recomputeDropCoefficients freefall_state initial_drop)"
    by (rule recompute_dragCoeff_pos) (simp_all add: r v)
  moreover have "0 < mass (recomputeDropCoefficients freefall_state initial_drop)"
    by (rule recompute_mass_pos)
  moreover have "8 * mass (recomputeDropCoefficients freefall_state initial_drop)
      \<le> dragCoeff (recomputeDropCoefficients freefall_state initial_drop) / 1800"
    by (rule default_stiff [OF r v])
  ultimately show ?thesis
    by (simp add: stiff_quiet_def freefall_drop_def freefall_state_def initial_state_def
        computeElectricField_def)
qed

lemma scenario_at_rest: "scenario_drop = scenario_drop\<lparr>y := 7 / 4000, velocity := 0\<rparr>"
  by (simp add: scenario_drop_def recomputeDropCoefficients_def Let_def initial_drop_def)

lemma freefall_at_rest: "freefall_drop = freefall_drop\<lparr>y := 7 / 4000, velocity := 0\<rparr>"
  by (simp add: freefall_drop_def recomputeDropCoefficients_def Let_def initial_drop_def)

section \<open>One sub-step of a stiff drop without noise and field\<close>

lemma stiff_keep:
  "stiff_quiet st d \<Longrightarrow> checkedDrop st (d\<lparr>y := a, velocity := b\<rparr>) = d\<lparr>y := a, velocity := b\<rparr>"
  by (rule checkedDrop_keeps) (simp add: stiff_quiet_def)

lemma stiff_kappa: "stiff_quiet st d \<Longrightarrow> 8 \<le> dragCoeff d / 1800 / mass d"
  by (simp add: stiff_quiet_def pos_le_divide_eq)

lemma stiff_euler:
  assumes "stiff_quiet st d"
  shows "eulerVelocity st (d\<lparr>y := a, velocity := b\<rparr>) (1 / 1800) 0 sample
       = b + 981 / 180000 - b * (dragCoeff d / 1800 / mass d)"
proof -
  have g: "gravity st = 981 / 100"
    using assms by (simp add: stiff_quiet_def)
  have "eulerVelocity st (d\<lparr>y := a, velocity := b\<rparr>) (1 / 1800) 0 sample
      = velocity (d\<lparr>y := a, velocity := b\<rparr>)
        + (gravity st - dragCoeff (d\<lparr>y := a, velocity := b\<rparr>)
             * velocity (d\<lparr>y := a, velocity := b\<rparr>) / mass (d\<lparr>y := a, velocity := b\<rparr>))
          * (1 / 1800)"
    using assms by (intro quiet_eulerVelocity) (simp_all add: stiff_quiet_def)
  also have "\<dots> = b + 981 / 180000 - b * (dragCoeff d / 1800 / mass d)"
    by (simp add: g algebra_simps)
  finally show ?thesis .
qed

lemma stiff_terminal_velocity:
  assumes "stiff_quiet st d"
  shows "0 < mass d * gravity st / dragCoeff d" and "mass d * gravity st / dragCoeff d \<le> 1 / 1000"
proof -
  have m: "0 < mass d" and c: "0 < dragCoeff d" and g: "gravity st = 981 / 100"
    and stiff: "8 * mass d \<le> dragCoeff d / 1800"
    using assms by (simp_all add: stiff_quiet_def)
  show "0 < mass d * gravity st / dragCoeff d"
    using m c by (simp add: g)
  have "mass d * (981 / 100) \<le> (dragCoeff d / 1800 / 8) * (981 / 100)"
    using stiff by (intro mult_right_mono) simp_all
  also have "\<dots> \<le> dragCoeff d * (1 / 1000)"
    using c by simp
  finally have "mass d * (981 / 100) / dragCoeff d \<le> 1 / 1000"
    using c by (simp add: pos_divide_le_eq)
  then show "mass d * gravity st / dragCoeff d \<le> 1 / 1000"
    by (simp add: g)
qed

lemma stiff_speedCap:
  assumes "stiff_quiet st d"
  shows "speedCap st (d\<lparr>y := a, velocity := b\<rparr>) 0 = 3 / 100"
proof -
  have c: "0 < dragCoeff d"
    using assms by (simp add: stiff_quiet_def)
  have "\<bar>mass d * gravity st / dragCoeff d\<bar> \<le> 1 / 1000"
    using stiff_terminal_velocity [OF assms] by simp
  then have "2 * \<bar>mass d * gravity st / dragCoeff d\<bar> \<le> 2 / 100"
    by linarith
  then show ?thesis
    by (simp add: speedCap_def dynamicCap_def vtAnalytic_def deterministicNet_def
        gravityForce_def electricForce_def stiff_keep [OF assms] c BASE_MAX_SPEED_def max_def)
qed

lemma stiff_step:
  assumes sq: "stiff_quiet st d"
    and "0 \<le> a + v / 1800" and "a + v / 1800 \<le> 5 / 1000"
    and "clamp (b + 981 / 180000 - b * (dragCoeff d / 1800 / mass d))
           (- (3 / 100)) (3 / 100) = v"
  shows "integrateStep st (d\<lparr>y := a, velocity := b\<rparr>) (1 / 1800) 0 sample
       = d\<lparr>y := a + v / 1800, velocity := v\<rparr>"
proof -
  let ?d = "d\<lparr>y := a, velocity := b\<rparr>"
  have gap: "plateGapMeters st = 5 / 1000"
    using sq by (simp add: stiff_quiet_def)
  have cv: "clampedVelocity st ?d (1 / 1800) 0 sample = v"
    unfolding clampedVelocity_def stiff_euler [OF sq] stiff_speedCap [OF sq] by (rule assms(4))
  have mp: "movedPosition st ?d (1 / 1800) 0 sample = a + v / 1800"
    by (simp add: movedPosition_def stiff_keep [OF sq] cv)
  have "integrateStep st ?d (1 / 1800) 0 sample
       = (checkedDrop st ?d)
           \<lparr>y := movedPosition st ?d (1 / 1800) 0 sample,
            velocity := clampedVelocity st ?d (1 / 1800) 0 sample\<rparr>"
  proof (rule integrateStep_inside)
    show "0 \<le> movedPosition st ?d (1 / 1800) 0 sample"
      unfolding mp by (rule assms(2))
    show "movedPosition st ?d (1 / 1800) 0 sample \<le> plateGapMeters st"
      unfolding mp gap by (rule assms(3))
  qed
  then show ?thesis
    by (simp add: mp cv stiff_keep [OF sq])
qed

lemma stiff_step_first:
  assumes "stiff_quiet st d"
  shows "integrateStep st (d\<lparr>y := 7 / 4000, velocity := 0\<rparr>) (1 / 1800) 0 sample
       = d\<lparr>y := posOdd, velocity := 981 / 180000\<rparr>"
proof -
  have "integrateStep st (d\<lparr>y := 7 / 4000, velocity := 0\<rparr>) (1 / 1800) 0 sample
       = d\<lparr>y := 7 / 4000 + (981 / 180000) / 1800, velocity := 981 / 180000\<rparr>"
    by (rule stiff_step [OF assms]) (simp_all add: clamp_def)
  then show ?thesis
    unfolding posOdd_def .
qed

lemma stiff_step_second:
  assumes "stiff_quiet st d"
  shows "integrateStep st (d\<lparr>y := posOdd, velocity := 981 / 180000\<rparr>) (1 / 1800) 0 sample
       = d\<lparr>y := posEven, velocity := - (3 / 100)\<rparr>"
proof -
  have "981 / 180000 + 981 / 180000
        - 981 / 180000 * (dragCoeff d / 1800 / mass d) \<le> - (3 / 100)"
    using stiff_kappa [OF assms] by simp
  then have "clamp (981 / 180000 + 981 / 180000
        - 981 / 180000 * (dragCoeff d / 1800 / mass d))
        (- (3 / 100)) (3 / 100) = - (3 / 100)"
    by (intro clamp_low) simp_all
  then have "integrateStep st (d\<lparr>y := posOdd, velocity := 981 / 180000\<rparr>) (1 / 1800) 0 sample
     = d\<lparr>y := posOdd + (- (3 / 100)) / 1800, velocity := - (3 / 100)\<rparr>"
    by (intro stiff_step [OF assms]) (simp_all add: posOdd_def)
  then show ?thesis
    by (simp add: posOdd_def posEven_def)
qed

lemma stiff_step_even:
  assumes "stiff_quiet st d"
  shows "integrateStep st (d\<lparr>y := posEven, velocity := - (3 / 100)\<rparr>) (1 / 1800) 0 sample
       = d\<lparr>y := posOdd, velocity := 3 / 100\<rparr>"
proof -
  have "3 / 100 \<le> - (3 / 100) + 981 / 180000
        - (- (3 / 100)) * (dragCoeff d / 1800 / mass d)"
    using stiff_kappa [OF assms] by simp
  then have "clamp (- (3 / 100) + 981 / 180000
        - (- (3 / 100)) * (dragCoeff d / 1800 / mass d))
        (- (3 / 100)) (3 / 100) = 3 / 100"
    by (intro clamp_high) simp_all
  then have "integrateStep st (d\<lparr>y := posEven, velocity := - (3 / 100)\<rparr>) (1 / 1800) 0 sample
     = d\<lparr>y := posEven + (3 / 100) / 1800, velocity := 3 / 100\<rparr>"
    by (intro stiff_step [OF assms]) (simp_all add: posEven_def)
  then show ?thesis
    by (simp add: posOdd_def posEven_def)
qed

lemma stiff_step_odd:
  assumes "stiff_quiet st d"
  shows "integrateStep st (d\<lparr>y := posOdd, velocity := 3 / 100\<rparr>) (1 / 1800) 0 sample
       = d\<lparr>y := posEven, velocity := - (3 / 100)\<rparr>"
proof -
  have "3 / 100 + 981 / 180000
        - 3 / 100 * (dragCoeff d / 1800 / mass d) \<le> - (3 / 100)"
    using stiff_kappa [OF assms] by simp
  then have "clamp (3 / 100 + 981 / 180000
        - 3 / 100 * (dragCoeff d / 1800 / mass d))
        (- (3 / 100)) (3 / 100) = - (3 / 100)"
    by (intro clamp_low) simp_all
  then have "integrateStep st (d\<lparr>y := posOdd, velocity := 3 / 100\<rparr>) (1 / 1800) 0 sample
     = d\<lparr>y := posOdd + (- (3 / 100)) / 1800, velocity := - (3 / 100)\<rparr>"
    by (intro stiff_step [OF assms]) (simp_all add: posOdd_def)
  then show ?thesis
    by (simp add: posOdd_def posEven_def)
qed

section \<open>The speed cap\<close>

text \<open>
  C5. After every call of \<open>integrateStep\<close> the magnitude of the velocity is at most the
  speed cap max(max(2 |vt|, 0.02), 0.25 * 0.12), where vt is the terminal velocity
  (gravityForce + electricForce) / dragCoeff of the noise-free force sum (the drag
  coefficient being positive). The clamp sits between the Euler update and the position
  update: with ev the velocity after the Euler update, vc = min(max(ev, -cap), cap) and
  p = y + vc * dt, the step returns position p and velocity vc when p is inside the gap,
  and the reflected values (position 0 or gap, velocity vc * -0.3) when it is not.
\<close>

theorem integrateStep_speed_cap:
  assumes "mass (checkedDrop st dr) \<noteq> 0"
    and "0 \<le> temperatureK st * dragCoeff (checkedDrop st dr)"
  shows "\<bar>velocity (integrateStep st dr dt E sample)\<bar> \<le> speedCap st dr E
       \<and> speedCap st dr E
           = max (max (2 * \<bar>vtAnalytic st dr E\<bar>) (2 / 100)) ((25 / 100) * (12 / 100))
       \<and> (0 < dragCoeff (checkedDrop st dr) \<longrightarrow>
            vtAnalytic st dr E
              = (gravityForce st dr + electricForce dr E) / dragCoeff (checkedDrop st dr))
       \<and> eulerVelocity st dr dt E sample
           = velocity (checkedDrop st dr)
             + netForce st dr dt E sample / mass (checkedDrop st dr) * dt
       \<and> (let vc = min (max (eulerVelocity st dr dt E sample) (- speedCap st dr E))
                        (speedCap st dr E);
               p = y (checkedDrop st dr) + vc * dt
           in (0 \<le> p \<and> p \<le> plateGapMeters st \<longrightarrow>
                 y (integrateStep st dr dt E sample) = p
                 \<and> velocity (integrateStep st dr dt E sample) = vc)
              \<and> (p < 0 \<and> 0 \<le> plateGapMeters st \<longrightarrow>
                   y (integrateStep st dr dt E sample) = 0
                   \<and> velocity (integrateStep st dr dt E sample) = vc * (- (3 / 10)))
              \<and> (plateGapMeters st < p \<and> 0 \<le> p \<longrightarrow>
                   y (integrateStep st dr dt E sample) = plateGapMeters st
                   \<and> velocity (integrateStep st dr dt E sample) = vc * (- (3 / 10)))
              \<and> (p < 0 \<and> plateGapMeters st < 0 \<longrightarrow>
                   y (integrateStep st dr dt E sample) = plateGapMeters st
                   \<and> velocity (integrateStep st dr dt E sample)
                       = vc * (- (3 / 10)) * (- (3 / 10))))"
proof -
  have c: "\<bar>clampedVelocity st dr dt E sample\<bar> \<le> speedCap st dr E"
    unfolding clampedVelocity_def by (rule clamp_abs [OF speedCap_nonneg])
  have "\<bar>velocity (integrateStep st dr dt E sample)\<bar> \<le> \<bar>clampedVelocity st dr dt E sample\<bar>"
    using integrateStep_velocity_cases [of st dr dt E sample]
    by (auto simp add: BOUNCE_DAMPING_def abs_mult)
  with c have bound: "\<bar>velocity (integrateStep st dr dt E sample)\<bar> \<le> speedCap st dr E"
    by linarith
  have cap: "speedCap st dr E
      = max (max (2 * \<bar>vtAnalytic st dr E\<bar>) (2 / 100)) ((25 / 100) * (12 / 100))"
    by (simp add: speedCap_def dynamicCap_def BASE_MAX_SPEED_def)
  have vt: "0 < dragCoeff (checkedDrop st dr) \<longrightarrow>
      vtAnalytic st dr E
        = (gravityForce st dr + electricForce dr E) / dragCoeff (checkedDrop st dr)"
    by (simp add: vtAnalytic_def deterministicNet_def)
  have ev: "eulerVelocity st dr dt E sample
      = velocity (checkedDrop st dr) + netForce st dr dt E sample / mass (checkedDrop st dr) * dt"
    by (simp add: eulerVelocity_def accel_def)
  have res: "let vc = min (max (eulerVelocity st dr dt E sample) (- speedCap st dr E))
                        (speedCap st dr E);
               p = y (checkedDrop st dr) + vc * dt
           in (0 \<le> p \<and> p \<le> plateGapMeters st \<longrightarrow>
                 y (integrateStep st dr dt E sample) = p
                 \<and> velocity (integrateStep st dr dt E sample) = vc)
              \<and> (p < 0 \<and> 0 \<le> plateGapMeters st \<longrightarrow>
                   y (integrateStep st dr dt E sample) = 0
                   \<and> velocity (integrateStep st dr dt E sample) = vc * (- (3 / 10)))
              \<and> (plateGapMeters st < p \<and> 0 \<le> p \<longrightarrow>
                   y (integrateStep st dr dt E sample) = plateGapMeters st
                   \<and> velocity (integrateStep st dr dt E sample) = vc * (- (3 / 10)))
              \<and> (p < 0 \<and> plateGapMeters st < 0 \<longrightarrow>
                   y (integrateStep st dr dt E sample) = plateGapMeters st
                   \<and> velocity (integrateStep st dr dt E sample)
                       = vc * (- (3 / 10)) * (- (3 / 10)))"
    by (simp add: Let_def integrateStep_def movedPosition_def clampedVelocity_def clamp_def
        BOUNCE_DAMPING_def)
  from bound cap vt ev res show ?thesis
    by blast
qed

theorem integrateStep_speed_cap_witness:
  "mass (checkedDrop scenario_state scenario_drop) \<noteq> 0
   \<and> 0 \<le> temperatureK scenario_state * dragCoeff (checkedDrop scenario_state scenario_drop)
   \<and> 0 < dragCoeff (checkedDrop scenario_state scenario_drop)
   \<and> 0 < gravityForce scenario_state scenario_drop
   \<and> \<bar>velocity (integrateStep scenario_state scenario_drop (1 / 1800) 0 1)\<bar> \<le> 3 / 100
   \<and> vtAnalytic scenario_state scenario_drop 0
       = (gravityForce scenario_state scenario_drop + electricForce scenario_drop 0)
         / dragCoeff (checkedDrop scenario_state scenario_drop)
   \<and> y (integrateStep scenario_state scenario_drop (1 / 1800) 0 1)
       = 7 / 4000 + 981 / 180000 * (1 / 1800)
   \<and> velocity (integrateStep scenario_state scenario_drop (1 / 1800) 0 1) = 981 / 180000"
proof -
  note sq = scenario_stiff_quiet
  have m: "0 < mass scenario_drop" and c: "0 < dragCoeff scenario_drop"
    and g: "gravity scenario_state = 981 / 100" and T: "temperatureK scenario_state = 0"
    and gap: "plateGapMeters scenario_state = 5 / 1000"
    using sq by (simp_all add: stiff_quiet_def scenario_state_def initial_state_def)
  have k: "checkedDrop scenario_state scenario_drop = scenario_drop"
    by (rule checkedDrop_keeps [OF c])
  have h1: "mass (checkedDrop scenario_state scenario_drop) \<noteq> 0"
    using m by (simp add: k)
  have h2: "0 \<le> temperatureK scenario_state * dragCoeff (checkedDrop scenario_state scenario_drop)"
    by (simp add: T)
  have h3: "0 < dragCoeff (checkedDrop scenario_state scenario_drop)"
    using c by (simp add: k)
  have gf: "0 < gravityForce scenario_state scenario_drop"
    using m by (simp add: gravityForce_def g)
  have ev: "eulerVelocity scenario_state scenario_drop (1 / 1800) 0 1 = 981 / 180000"
    using stiff_euler [OF sq, where a = "7 / 4000" and b = 0 and sample = 1] scenario_at_rest
    by simp
  have cap: "speedCap scenario_state scenario_drop 0 = 3 / 100"
    using stiff_speedCap [OF sq, where a = "7 / 4000" and b = 0] scenario_at_rest by simp
  have y0: "y scenario_drop = 7 / 4000"
    by (subst scenario_at_rest) simp
  note t = integrateStep_speed_cap [OF h1 h2, of "1 / 1800" 0 1]
  from t have b: "\<bar>velocity (integrateStep scenario_state scenario_drop (1 / 1800) 0 1)\<bar> \<le> 3 / 100"
    unfolding cap by blast
  from t h3 have v: "vtAnalytic scenario_state scenario_drop 0
       = (gravityForce scenario_state scenario_drop + electricForce scenario_drop 0)
         / dragCoeff (checkedDrop scenario_state scenario_drop)"
    by blast
  from t have "y (integrateStep scenario_state scenario_drop (1 / 1800) 0 1)
       = 7 / 4000 + 981 / 180000 * (1 / 1800)
     \<and> velocity (integrateStep scenario_state scenario_drop (1 / 1800) 0 1) = 981 / 180000"
    by (simp add: Let_def ev cap k y0 gap)
  with h1 h2 h3 gf b v show ?thesis
    by blast
qed

section \<open>The free fall\<close>

lemma freefall_after_1:
  "freefall_after (Suc 0) = freefall_drop\<lparr>y := posOdd, velocity := 981 / 180000\<rparr>"
proof -
  have E: "computeElectricField freefall_state = 0"
    using freefall_stiff_quiet by (simp add: stiff_quiet_def)
  have "integrateStep freefall_state (freefall_drop\<lparr>y := 7 / 4000, velocity := 0\<rparr>) (1 / 1800) 0
      (zero_samples 0) = freefall_drop\<lparr>y := posOdd, velocity := 981 / 180000\<rparr>"
    by (rule stiff_step_first [OF freefall_stiff_quiet])
  then show ?thesis
    using freefall_at_rest by (simp add: E)
qed

lemma freefall_after_2:
  "freefall_after (Suc (Suc 0)) = freefall_drop\<lparr>y := posEven, velocity := - (3 / 100)\<rparr>"
proof -
  have E: "computeElectricField freefall_state = 0"
    using freefall_stiff_quiet by (simp add: stiff_quiet_def)
  have "freefall_after (Suc (Suc 0))
      = integrateStep freefall_state (freefall_after (Suc 0)) (1 / 1800) 0 (zero_samples (Suc 0))"
    by (simp only: freefall_after.simps E)
  then show ?thesis
    unfolding freefall_after_1 stiff_step_second [OF freefall_stiff_quiet] .
qed

lemma freefall_after_3:
  "freefall_after (Suc (Suc (Suc 0))) = freefall_drop\<lparr>y := posOdd, velocity := 3 / 100\<rparr>"
proof -
  have E: "computeElectricField freefall_state = 0"
    using freefall_stiff_quiet by (simp add: stiff_quiet_def)
  have "freefall_after (Suc (Suc (Suc 0)))
      = integrateStep freefall_state (freefall_after (Suc (Suc 0))) (1 / 1800) 0
          (zero_samples (Suc (Suc 0)))"
    by (simp only: freefall_after.simps E)
  then show ?thesis
    unfolding freefall_after_2 stiff_step_even [OF freefall_stiff_quiet] .
qed

text \<open>
  C6. With the noise boost at 0, the field disabled, no charge and a positive mass, the
  sub-steps of the default drop falling from rest do not move the position in one
  direction: the first sub-step raises it, the second lowers it, the third raises it
  again. From the second sub-step on the velocity is the speed cap with alternating
  sign, because the drag coefficient times the sub-step is at least 8 times the mass and
  the explicit Euler update overshoots.
\<close>

theorem freefall_run_reverses:
  "noiseBoost freefall_state = 0 \<and> \<not> fieldEnabled freefall_state
   \<and> chargeCoulombs freefall_drop = 0 \<and> 0 < mass freefall_drop
   \<and> y (freefall_after 0) < y (freefall_after 1)
   \<and> y (freefall_after 2) < y (freefall_after 1)
   \<and> y (freefall_after 2) < y (freefall_after 3)
   \<and> velocity (freefall_after 1) = 981 / 180000
   \<and> velocity (freefall_after 2) = - (3 / 100)
   \<and> velocity (freefall_after 3) = 3 / 100"
proof -
  have n1: "(1::nat) = Suc 0" and n2: "(2::nat) = Suc (Suc 0)"
    and n3: "(3::nat) = Suc (Suc (Suc 0))"
    by simp_all
  have m: "0 < mass freefall_drop"
    using freefall_stiff_quiet by (simp add: stiff_quiet_def)
  have y0: "y (freefall_after 0) = 7 / 4000"
    by (simp, subst freefall_at_rest, simp)
  have s: "noiseBoost freefall_state = 0" "\<not> fieldEnabled freefall_state"
    "chargeCoulombs freefall_drop = 0"
    by (simp_all add: freefall_state_def freefall_drop_def)
  have p: "(7 / 4000 :: real) < posOdd" "posEven < posOdd"
    by (simp_all add: posOdd_def posEven_def)
  show ?thesis
    unfolding n1 n2 n3 freefall_after_1 freefall_after_2 freefall_after_3
    using m y0 s p by simp
qed

section \<open>The scenario run\<close>

lemma smokeLoop_step:
  assumes "t < TOTAL" and "1 / 1800 \<le> TOTAL - t"
  shows "smokeLoop TOTAL t st dr rng k
       = smokeLoop TOTAL (t + 1 / 1800) st
           (integrateStep st dr (1 / 1800) (computeElectricField st) (rng k)) rng (Suc k)"
  using assms by (subst smokeLoop.simps) (simp add: SUBSTEP_DT_def Let_def min_def)

lemma smokeLoop_done: "\<not> t < TOTAL \<Longrightarrow> smokeLoop TOTAL t st dr rng k = dr"
  by (subst smokeLoop.simps) simp

lemma scenario_field: "computeElectricField scenario_state = 0"
  using scenario_stiff_quiet by (simp add: stiff_quiet_def)

lemma scenario_tail:
  "k \<le> 5400 \<Longrightarrow>
   smokeLoop 3 (real k / 1800) scenario_state
       (if even k then scenario_drop\<lparr>y := posEven, velocity := - (3 / 100)\<rparr>
        else scenario_drop\<lparr>y := posOdd, velocity := 3 / 100\<rparr>) rng k
     = scenario_drop\<lparr>y := posEven, velocity := - (3 / 100)\<rparr>"
proof (induction "5400 - k" arbitrary: k)
  case 0
  then have k: "k = 5400"
    by simp
  show ?case
    unfolding k by (subst smokeLoop_done) simp_all
next
  case (Suc n)
  let ?DE = "scenario_drop\<lparr>y := posEven, velocity := - (3 / 100)\<rparr>"
  let ?DO = "scenario_drop\<lparr>y := posOdd, velocity := 3 / 100\<rparr>"
  from Suc.hyps(2) have lt: "k < 5400" and n: "n = 5400 - Suc k" and le: "Suc k \<le> 5400"
    by simp_all
  from lt have "real k \<le> 5399"
    by simp
  then have t: "real k / 1800 < 3" and room: "1 / 1800 \<le> 3 - real k / 1800"
    by simp_all
  have next_t: "real k / 1800 + 1 / 1800 = real (Suc k) / 1800"
    by (simp add: add_divide_distrib)
  have stepped: "integrateStep scenario_state (if even k then ?DE else ?DO) (1 / 1800)
        (computeElectricField scenario_state) (rng k)
      = (if even (Suc k) then ?DE else ?DO)"
    by (simp add: scenario_field stiff_step_even [OF scenario_stiff_quiet]
        stiff_step_odd [OF scenario_stiff_quiet])
  have "smokeLoop 3 (real k / 1800) scenario_state (if even k then ?DE else ?DO) rng k
      = smokeLoop 3 (real (Suc k) / 1800) scenario_state
          (if even (Suc k) then ?DE else ?DO) rng (Suc k)"
    unfolding smokeLoop_step [OF t room] stepped next_t ..
  also have "\<dots> = ?DE"
    by (rule Suc.hyps(1) [OF n le])
  finally show ?case .
qed

lemma scenario_final_state:
  "smokeLoop 3 0 scenario_state scenario_drop rng 0
     = scenario_drop\<lparr>y := posEven, velocity := - (3 / 100)\<rparr>"
proof -
  let ?E = "computeElectricField scenario_state"
  let ?D1 = "scenario_drop\<lparr>y := posOdd, velocity := 981 / 180000\<rparr>"
  let ?DE = "scenario_drop\<lparr>y := posEven, velocity := - (3 / 100)\<rparr>"
  let ?DO = "scenario_drop\<lparr>y := posOdd, velocity := 3 / 100\<rparr>"
  have "integrateStep scenario_state (scenario_drop\<lparr>y := 7 / 4000, velocity := 0\<rparr>)
      (1 / 1800) ?E (rng 0) = ?D1"
    unfolding scenario_field by (rule stiff_step_first [OF scenario_stiff_quiet])
  then have i1: "integrateStep scenario_state scenario_drop (1 / 1800) ?E (rng 0) = ?D1"
    using scenario_at_rest by simp
  have i2: "integrateStep scenario_state ?D1 (1 / 1800) ?E (rng (Suc 0)) = ?DE"
    unfolding scenario_field by (rule stiff_step_second [OF scenario_stiff_quiet])
  have t2: "(0::real) + 1 / 1800 + 1 / 1800 = real 2 / 1800"
    by simp
  have k2: "Suc (Suc 0) = 2"
    by simp
  have e2: "(if even (2::nat) then ?DE else ?DO) = ?DE"
    by simp
  have "smokeLoop 3 0 scenario_state scenario_drop rng 0
      = smokeLoop 3 (0 + 1 / 1800) scenario_state
          (integrateStep scenario_state scenario_drop (1 / 1800) ?E (rng 0)) rng (Suc 0)"
    by (rule smokeLoop_step) simp_all
  also have "\<dots> = smokeLoop 3 (0 + 1 / 1800 + 1 / 1800) scenario_state
          (integrateStep scenario_state ?D1 (1 / 1800) ?E (rng (Suc 0))) rng (Suc (Suc 0))"
    unfolding i1 by (rule smokeLoop_step) simp_all
  also have "\<dots> = smokeLoop 3 (real 2 / 1800) scenario_state ?DE rng 2"
    unfolding i2 t2 k2 ..
  also have "\<dots> = ?DE"
    using scenario_tail [of 2 rng] unfolding e2 by simp
  finally show ?thesis .
qed

text \<open>
  C7. In the scenario (radius 0.9 micrometers, viscosity 1.8e-5 Pa s, field disabled
  at 0 kV, charge multiple -8, temperature 0 K, gap 5 mm, start at 0.35 of the gap at
  rest), after 3.0 s in sub-steps of 1/1800 s the velocity is -0.03 m/s, the speed cap,
  while the terminal velocity mass * g / dragCoeff lies between 0 and 0.001 m/s: the
  velocity is not within 1 percent of it. The position is between 1.736 mm and
  1.737 mm, not 0.
\<close>

theorem scenario_run_misses_terminal_velocity:
  "velocity (smokeLoop 3 0 scenario_state scenario_drop zero_samples 0) = - (3 / 100)
   \<and> 1736 / 10 ^ 6 < y (smokeLoop 3 0 scenario_state scenario_drop zero_samples 0)
   \<and> y (smokeLoop 3 0 scenario_state scenario_drop zero_samples 0) < 1737 / 10 ^ 6
   \<and> 0 < mass scenario_drop * gravity scenario_state / dragCoeff scenario_drop
   \<and> mass scenario_drop * gravity scenario_state / dragCoeff scenario_drop \<le> 1 / 1000
   \<and> \<not> \<bar>velocity (smokeLoop 3 0 scenario_state scenario_drop zero_samples 0)
          - mass scenario_drop * gravity scenario_state / dragCoeff scenario_drop\<bar>
        \<le> (1 / 100) * \<bar>mass scenario_drop * gravity scenario_state / dragCoeff scenario_drop\<bar>
   \<and> y (smokeLoop 3 0 scenario_state scenario_drop zero_samples 0) \<noteq> 0"
proof -
  let ?vt = "mass scenario_drop * gravity scenario_state / dragCoeff scenario_drop"
  have v: "velocity (smokeLoop 3 0 scenario_state scenario_drop zero_samples 0) = - (3 / 100)"
    and p: "y (smokeLoop 3 0 scenario_state scenario_drop zero_samples 0) = posEven"
    by (simp_all add: scenario_final_state)
  have vt: "0 < ?vt" "?vt \<le> 1 / 1000"
    by (rule stiff_terminal_velocity [OF scenario_stiff_quiet])+
  from vt(1) have far: "\<not> \<bar>- (3 / 100) - ?vt\<bar> \<le> (1 / 100) * \<bar>?vt\<bar>"
    by simp
  have pos: "1736 / 10 ^ 6 < posEven" "posEven < 1737 / 10 ^ 6" "posEven \<noteq> 0"
    by (simp_all add: posEven_def)
  from vt far pos show ?thesis
    unfolding v p by blast
qed

section \<open>The frame driver\<close>

lemma rounded_diff:
  assumes "rounded_subtraction sub"
  shows "\<bar>sub a b - (a - b)\<bar> \<le> \<bar>a - b\<bar> / 2 ^ 53"
  using assms by (simp add: rounded_subtraction_def)

lemma rounded_self: "rounded_subtraction sub \<Longrightarrow> sub a a = 0"
  using rounded_diff [of sub a a] by simp

lemma rounded_nonneg:
  assumes "rounded_subtraction sub" and "b \<le> a"
  shows "0 \<le> sub a b"
proof -
  have "\<bar>sub a b - (a - b)\<bar> \<le> (a - b) / 2 ^ 53"
    using rounded_diff [OF assms(1), of a b] assms(2) by simp
  moreover have "(a - b) / 2 ^ 53 \<le> a - b"
    using assms(2) by (simp add: field_simps)
  ultimately show ?thesis
    by linarith
qed

lemma rounded_zero:
  assumes "rounded_subtraction sub" and "sub a b = 0"
  shows "a = b"
proof -
  define e where "e = \<bar>a - b\<bar>"
  have "\<bar>- (a - b)\<bar> \<le> \<bar>a - b\<bar> / 2 ^ 53"
    using rounded_diff [OF assms(1), of a b] unfolding assms(2) diff_0 .
  then have "e \<le> e / 2 ^ 53"
    unfolding abs_minus_cancel e_def .
  then have "e * 2 ^ 53 \<le> e"
    by (simp add: field_simps)
  moreover have "0 \<le> e"
    by (simp add: e_def)
  ultimately have "e = 0"
    by simp
  then show ?thesis
    by (simp add: e_def)
qed

lemma rounded_error:
  assumes "rounded_subtraction sub" and "0 \<le> b" and "b \<le> a" and "a \<le> 1 / 20"
  shows "\<bar>sub a b - (a - b)\<bar> \<le> 1 / (20 * 2 ^ 53)"
proof -
  have "\<bar>a - b\<bar> \<le> 1 / 20"
    using assms(2-4) by simp
  then have "\<bar>a - b\<bar> / 2 ^ 53 \<le> (1 / 20) / 2 ^ 53"
    by (rule divide_right_mono) simp
  with rounded_diff [OF assms(1), of a b] show ?thesis
    by simp
qed

lemma rounded_full_step:
  assumes "rounded_subtraction sub" and "1 / 1800 < a" and "a \<le> 1 / 20"
  shows "sub a (1 / 1800) \<le> a - 1 / 1820"
proof -
  have "\<bar>sub a (1 / 1800) - (a - 1 / 1800)\<bar> \<le> 1 / (20 * 2 ^ 53)"
    using assms by (intro rounded_error) simp_all
  moreover have "(1::real) / (20 * 2 ^ 53) \<le> 1 / 1800 - 1 / 1820"
    by simp
  ultimately show ?thesis
    by linarith
qed

lemma loopBody_remaining:
  "lv_remaining (loopBody sub rng s) = sub (lv_remaining s) (stepDt s)"
  by (simp add: loopBody_def Let_def)





lemma remaining_after_run:
  assumes rs: "rounded_subtraction sub" and pos: "0 < r" and le: "r \<le> 1 / 20"
  shows "0 \<le> sub r (min r SUBSTEP_DT)"
    and "sub r (min r SUBSTEP_DT) \<le> 1 / 20"
    and "nat \<lceil>sub r (min r SUBSTEP_DT) * 1820\<rceil> < nat \<lceil>r * 1820\<rceil>"
    and "\<bar>min r SUBSTEP_DT + sub r (min r SUBSTEP_DT) - r\<bar> \<le> 1 / (20 * 2 ^ 53)"
proof -
  let ?d = "min r SUBSTEP_DT"
  have d: "0 \<le> ?d" "?d \<le> r"
    using pos by (simp_all add: SUBSTEP_DT_def)
  show nn: "0 \<le> sub r ?d"
    by (rule rounded_nonneg [OF rs d(2)])
  have c0: "0 < \<lceil>r * 1820\<rceil>"
    using pos by simp
  have "sub r ?d \<le> r - 1 / 1820 \<or> sub r ?d = 0"
  proof (cases "r \<le> 1 / 1800")
    case True
    then have "?d = r"
      by (simp add: SUBSTEP_DT_def)
    then show ?thesis
      by (simp add: rounded_self [OF rs])
  next
    case False
    then have lt: "1 / 1800 < r"
      by simp
    then have dd: "?d = 1 / 1800"
      by (simp add: SUBSTEP_DT_def)
    show ?thesis
      unfolding dd using rounded_full_step [OF rs lt le] by blast
  qed
  then have dec: "\<lceil>sub r ?d * 1820\<rceil> < \<lceil>r * 1820\<rceil>"
  proof
    assume "sub r ?d \<le> r - 1 / 1820"
    then have "sub r ?d * 1820 \<le> r * 1820 - 1"
      by simp
    then have "\<lceil>sub r ?d * 1820\<rceil> \<le> \<lceil>r * 1820 - 1\<rceil>"
      by (rule ceiling_mono)
    then show ?thesis
      by simp
  next
    assume "sub r ?d = 0"
    then show ?thesis
      using c0 by simp
  qed
  with c0 show "nat \<lceil>sub r ?d * 1820\<rceil> < nat \<lceil>r * 1820\<rceil>"
    by linarith
  from dec have "sub r ?d * 1820 \<le> r * 1820"
    by (metis ceiling_less_cancel less_eq_real_def)
  with le show "sub r ?d \<le> 1 / 20"
    by simp
  have "\<bar>sub r ?d - (r - ?d)\<bar> \<le> 1 / (20 * 2 ^ 53)"
    by (rule rounded_error [OF rs d le])
  then show "\<bar>?d + sub r ?d - r\<bar> \<le> 1 / (20 * 2 ^ 53)"
    by (simp add: algebra_simps)
qed

lemma loop_runs:
  assumes rs: "rounded_subtraction sub"
  shows "0 \<le> lv_remaining s \<Longrightarrow> lv_remaining s \<le> 1 / 20 \<Longrightarrow>
     nat \<lceil>lv_remaining s * 1820\<rceil> \<le> m \<Longrightarrow>
     \<exists>n\<le>m. subStepLoop sub rng s = Some ((loopBody sub rng ^^ n) s)
        \<and> lv_remaining ((loopBody sub rng ^^ n) s) = 0
        \<and> (\<forall>i<n. 0 < lv_remaining ((loopBody sub rng ^^ i) s))
        \<and> \<bar>(\<Sum>i<n. stepDt ((loopBody sub rng ^^ i) s)) - lv_remaining s\<bar>
             \<le> real n / (20 * 2 ^ 53)"
proof (induction m arbitrary: s)
  case 0
  from "0.prems"(3) have "lv_remaining s * 1820 \<le> 0"
    by (simp add: ceiling_le_iff)
  with "0.prems"(1) have z: "lv_remaining s = 0"
    by simp
  then have "subStepLoop sub rng s = Some s"
    by (subst subStepLoop.simps) simp
  with z show ?case
    by simp
next
  case (Suc m)
  show ?case
  proof (cases "0 < lv_remaining s")
    case False
    with Suc.prems(1) have z: "lv_remaining s = 0"
      by simp
    then have "subStepLoop sub rng s = Some s"
      by (subst subStepLoop.simps) simp
    with z have "subStepLoop sub rng s = Some ((loopBody sub rng ^^ 0) s)
        \<and> lv_remaining ((loopBody sub rng ^^ 0) s) = 0
        \<and> (\<forall>i<0. 0 < lv_remaining ((loopBody sub rng ^^ i) s))
        \<and> \<bar>(\<Sum>i<0. stepDt ((loopBody sub rng ^^ i) s)) - lv_remaining s\<bar>
             \<le> real 0 / (20 * 2 ^ 53)"
      by simp
    then show ?thesis
      by blast
  next
    case pos: True
    let ?s' = "loopBody sub rng s"
    have rem': "lv_remaining ?s' = sub (lv_remaining s) (min (lv_remaining s) SUBSTEP_DT)"
      by (simp add: loopBody_remaining stepDt_def)
    note ra = remaining_after_run [OF rs pos Suc.prems(2)]
    have nn: "0 \<le> lv_remaining ?s'" and le: "lv_remaining ?s' \<le> 1 / 20"
      unfolding rem' by (rule ra(1), rule ra(2))
    have cnt: "nat \<lceil>lv_remaining ?s' * 1820\<rceil> \<le> m"
      unfolding rem' using ra(3) Suc.prems(3) by linarith
    from Suc.IH [OF nn le cnt] obtain n where n: "n \<le> m"
      and run: "subStepLoop sub rng ?s' = Some ((loopBody sub rng ^^ n) ?s')"
      and zero: "lv_remaining ((loopBody sub rng ^^ n) ?s') = 0"
      and posi: "\<forall>i<n. 0 < lv_remaining ((loopBody sub rng ^^ i) ?s')"
      and sum': "\<bar>(\<Sum>i<n. stepDt ((loopBody sub rng ^^ i) ?s')) - lv_remaining ?s'\<bar>
             \<le> real n / (20 * 2 ^ 53)"
      by blast
    have unroll: "subStepLoop sub rng s = subStepLoop sub rng ?s'"
      using pos by (subst subStepLoop.simps) simp
    have shift: "(loopBody sub rng ^^ Suc i) s = (loopBody sub rng ^^ i) ?s'" for i
      by (simp add: funpow_swap1)
    have a: "subStepLoop sub rng s = Some ((loopBody sub rng ^^ Suc n) s)"
      unfolding unroll shift by (rule run)
    have b: "lv_remaining ((loopBody sub rng ^^ Suc n) s) = 0"
      unfolding shift by (rule zero)
    have c: "\<forall>i<Suc n. 0 < lv_remaining ((loopBody sub rng ^^ i) s)"
    proof (intro allI impI)
      fix i
      assume i: "i < Suc n"
      show "0 < lv_remaining ((loopBody sub rng ^^ i) s)"
      proof (cases i)
        case 0
        with pos show ?thesis
          by simp
      next
        case (Suc j)
        with i have "j < n"
          by simp
        with posi have "0 < lv_remaining ((loopBody sub rng ^^ j) ?s')"
          by blast
        then show ?thesis
          unfolding Suc shift .
      qed
    qed
    have "(\<Sum>i<Suc n. stepDt ((loopBody sub rng ^^ i) s))
        = stepDt ((loopBody sub rng ^^ 0) s) + (\<Sum>i<n. stepDt ((loopBody sub rng ^^ Suc i) s))"
      by (rule sum.lessThan_Suc_shift)
    also have "\<dots> = stepDt s + (\<Sum>i<n. stepDt ((loopBody sub rng ^^ i) ?s'))"
      unfolding shift by simp
    finally have split: "(\<Sum>i<Suc n. stepDt ((loopBody sub rng ^^ i) s))
        = stepDt s + (\<Sum>i<n. stepDt ((loopBody sub rng ^^ i) ?s'))" .
    have one: "\<bar>stepDt s + lv_remaining ?s' - lv_remaining s\<bar> \<le> 1 / (20 * 2 ^ 53)"
      unfolding rem' stepDt_def by (rule ra(4))
    have "real (Suc n) / (20 * 2 ^ 53) = real n / (20 * 2 ^ 53) + 1 / (20 * 2 ^ 53)"
      by (simp add: add_divide_distrib)
    with sum' one have d: "\<bar>(\<Sum>i<Suc n. stepDt ((loopBody sub rng ^^ i) s)) - lv_remaining s\<bar>
        \<le> real (Suc n) / (20 * 2 ^ 53)"
      unfolding split by linarith
    from n have "Suc n \<le> Suc m"
      by simp
    with a b c d show ?thesis
      by blast
  qed
qed

lemma frame_duration_bounds:
  "0 \<le> min (safeDt dt) MAX_FRAME_DT" "min (safeDt dt) MAX_FRAME_DT \<le> 1 / 20"
  "nat \<lceil>min (safeDt dt) MAX_FRAME_DT * 1820\<rceil> \<le> 91"
proof -
  show nn: "0 \<le> min (safeDt dt) MAX_FRAME_DT"
    by (cases dt) (simp_all add: safeDt_def MAX_FRAME_DT_def)
  show le: "min (safeDt dt) MAX_FRAME_DT \<le> 1 / 20"
    by (simp add: MAX_FRAME_DT_def)
  then have "min (safeDt dt) MAX_FRAME_DT * 1820 \<le> 91"
    by simp
  then have "\<lceil>min (safeDt dt) MAX_FRAME_DT * 1820\<rceil> \<le> 91"
    by (simp add: ceiling_le_iff)
  then show "nat \<lceil>min (safeDt dt) MAX_FRAME_DT * 1820\<rceil> \<le> 91"
    by simp
qed

lemma loopAfter_Suc: "loopAfter sub rng w dt (Suc i) = loopBody sub rng (loopAfter sub rng w dt i)"
  by (simp add: loopAfter_def)


lemma loopAfter_0_remaining:
  "lv_remaining (loopAfter sub rng w dt 0) = min (safeDt dt) MAX_FRAME_DT"
  by (simp add: loopAfter_def initialLoopVars_def)


lemma frame_loop:
  assumes rs: "rounded_subtraction sub"
  shows "\<exists>n\<le>91. subStepLoop sub rng (loopAfter sub rng w dt 0) = Some (loopAfter sub rng w dt n)
     \<and> lv_remaining (loopAfter sub rng w dt n) = 0
     \<and> (\<forall>i<n. 0 < lv_remaining (loopAfter sub rng w dt i))
     \<and> \<bar>(\<Sum>i<n. stepDt (loopAfter sub rng w dt i)) - min (safeDt dt) MAX_FRAME_DT\<bar>
          \<le> real n / (20 * 2 ^ 53)"
proof -
  let ?s = "initialLoopVars w (min (safeDt dt) MAX_FRAME_DT)"
  have r: "lv_remaining ?s = min (safeDt dt) MAX_FRAME_DT"
    by (simp add: initialLoopVars_def)
  have nn: "0 \<le> lv_remaining ?s" and le: "lv_remaining ?s \<le> 1 / 20"
    and cnt: "nat \<lceil>lv_remaining ?s * 1820\<rceil> \<le> 91"
    unfolding r by (rule frame_duration_bounds)+
  show ?thesis
    unfolding loopAfter_def funpow_0
    by (rule loop_runs [OF rs nn le cnt, of rng, unfolded r])
qed

lemma last_run_takes_all:
  assumes rs: "rounded_subtraction sub" and "0 < n"
    and "lv_remaining (loopAfter sub rng w dt n) = 0"
  shows "min (lv_remaining (loopAfter sub rng w dt (n - 1))) (1 / 1800)
       = lv_remaining (loopAfter sub rng w dt (n - 1))"
proof -
  from assms(2) have S: "Suc (n - 1) = n"
    by simp
  have "lv_remaining (loopAfter sub rng w dt (Suc (n - 1))) = 0"
    unfolding S by (rule assms(3))
  then have "sub (lv_remaining (loopAfter sub rng w dt (n - 1)))
      (min (lv_remaining (loopAfter sub rng w dt (n - 1))) (1 / 1800)) = 0"
    by (simp add: loopAfter_Suc loopBody_remaining stepDt_def SUBSTEP_DT_def)
  from rounded_zero [OF rs this] show ?thesis
    by simp
qed

lemma first_zero_unique:
  fixes f :: "nat \<Rightarrow> real"
  assumes "f n = 0" and "\<forall>i<n. 0 < f i" and "f k = 0" and "\<forall>i<k. 0 < f i"
  shows "n = k"
proof (rule ccontr)
  assume "n \<noteq> k"
  then consider "n < k" | "k < n"
    by linarith
  then show False
  proof cases
    case 1
    with assms(4) have "0 < f n"
      by blast
    with assms(1) show False
      by simp
  next
    case 2
    with assms(2) have "0 < f k"
      by blast
    with assms(3) show False
      by simp
  qed
qed

lemma coarse_rounded: "rounded_subtraction coarse_sub"
proof -
  have gen: "x * (1 + u) - x = x * u" for x u :: real
    by (simp add: algebra_simps)
  have e: "coarse_sub a b - (a - b) = (a - b) / 2 ^ 53" for a b
    by (simp only: coarse_sub_def gen times_divide_eq_right mult_1_right)
  show ?thesis
    unfolding rounded_subtraction_def e by (simp add: abs_divide)
qed

lemma coarse_run:
  "lv_remaining (loopAfter coarse_sub rng w (Finite (1 / 900)) 0) = 1 / 900"
  "lv_remaining (loopAfter coarse_sub rng w (Finite (1 / 900)) (Suc 0))
     = (1 / 1800) * (1 + 1 / 2 ^ 53)"
  "lv_remaining (loopAfter coarse_sub rng w (Finite (1 / 900)) (Suc (Suc 0)))
     = (1 / 1800) * (1 / 2 ^ 53) * (1 + 1 / 2 ^ 53)"
  "lv_remaining (loopAfter coarse_sub rng w (Finite (1 / 900)) (Suc (Suc (Suc 0)))) = 0"
proof -
  show r0: "lv_remaining (loopAfter coarse_sub rng w (Finite (1 / 900)) 0) = 1 / 900"
    by (simp add: loopAfter_0_remaining safeDt_def MAX_FRAME_DT_def)
  show r1: "lv_remaining (loopAfter coarse_sub rng w (Finite (1 / 900)) (Suc 0))
      = (1 / 1800) * (1 + 1 / 2 ^ 53)"
    unfolding loopAfter_Suc loopBody_remaining stepDt_def r0
    by (simp add: SUBSTEP_DT_def coarse_sub_def)
  show r2: "lv_remaining (loopAfter coarse_sub rng w (Finite (1 / 900)) (Suc (Suc 0)))
      = (1 / 1800) * (1 / 2 ^ 53) * (1 + 1 / 2 ^ 53)"
    unfolding loopAfter_Suc [of _ _ _ _ "Suc 0"] loopBody_remaining stepDt_def r1
    by (simp add: SUBSTEP_DT_def coarse_sub_def)
  show "lv_remaining (loopAfter coarse_sub rng w (Finite (1 / 900)) (Suc (Suc (Suc 0)))) = 0"
    unfolding loopAfter_Suc [of _ _ _ _ "Suc (Suc 0)"] loopBody_remaining stepDt_def r2
    by (simp add: SUBSTEP_DT_def coarse_sub_def)
qed

lemma coarse_run_positive:
  "\<forall>i<3. 0 < lv_remaining (loopAfter coarse_sub rng w (Finite (1 / 900)) i)"
proof (intro allI impI)
  fix i :: nat
  assume "i < 3"
  then consider "i = 0" | "i = Suc 0" | "i = Suc (Suc 0)"
    by linarith
  then show "0 < lv_remaining (loopAfter coarse_sub rng w (Finite (1 / 900)) i)"
    by cases (simp_all add: coarse_run)
qed

lemma coarse_run_zero: "lv_remaining (loopAfter coarse_sub rng w (Finite (1 / 900)) 3) = 0"
  using coarse_run(4) [of rng w] by (simp add: numeral_3_eq_3)



text \<open>
  C10. For every frame duration, finite or not, and every subtraction that rounds as
  doubles do, the sub-stepping loop of \<open>update\<close> returns after finitely many runs of
  its body (at most 91): before each run the remaining duration is positive and the run
  subtracts min(remaining, 1/1800 s) from it; the loop is entered with a positive
  remaining duration, and the last run subtracts all that remains, so that the loop ends
  with the remaining duration exactly 0.
\<close>

theorem subStepLoop_terminates:
  assumes "rounded_subtraction sub"
  shows "0 \<le> min (safeDt dt) MAX_FRAME_DT
   \<and> lv_remaining (loopAfter sub rng w dt 0) = min (safeDt dt) MAX_FRAME_DT
   \<and> (\<exists>n\<le>91.
        subStepLoop sub rng (loopAfter sub rng w dt 0) = Some (loopAfter sub rng w dt n)
        \<and> lv_remaining (loopAfter sub rng w dt n) = 0
        \<and> (\<forall>i<n.
              0 < lv_remaining (loopAfter sub rng w dt i)
              \<and> lv_remaining (loopAfter sub rng w dt (Suc i))
                  = sub (lv_remaining (loopAfter sub rng w dt i))
                      (min (lv_remaining (loopAfter sub rng w dt i)) (1 / 1800)))
        \<and> (min (safeDt dt) MAX_FRAME_DT \<noteq> 0 \<longrightarrow>
              0 < lv_remaining (loopAfter sub rng w dt 0)
              \<and> 0 < n
              \<and> min (lv_remaining (loopAfter sub rng w dt (n - 1))) (1 / 1800)
                  = lv_remaining (loopAfter sub rng w dt (n - 1))))"
proof -
  have nn: "0 \<le> min (safeDt dt) MAX_FRAME_DT"
    by (rule frame_duration_bounds(1))
  have r0: "lv_remaining (loopAfter sub rng w dt 0) = min (safeDt dt) MAX_FRAME_DT"
    by (rule loopAfter_0_remaining)
  from frame_loop [OF assms, of rng w dt] obtain n where n: "n \<le> 91"
    and loop: "subStepLoop sub rng (loopAfter sub rng w dt 0) = Some (loopAfter sub rng w dt n)"
    and zero: "lv_remaining (loopAfter sub rng w dt n) = 0"
    and pos: "\<forall>i<n. 0 < lv_remaining (loopAfter sub rng w dt i)"
    by blast
  have step: "lv_remaining (loopAfter sub rng w dt (Suc i))
      = sub (lv_remaining (loopAfter sub rng w dt i))
          (min (lv_remaining (loopAfter sub rng w dt i)) (1 / 1800))" for i
    by (simp add: loopAfter_Suc loopBody_remaining stepDt_def SUBSTEP_DT_def)
  have each: "\<forall>i<n. 0 < lv_remaining (loopAfter sub rng w dt i)
      \<and> lv_remaining (loopAfter sub rng w dt (Suc i))
          = sub (lv_remaining (loopAfter sub rng w dt i))
              (min (lv_remaining (loopAfter sub rng w dt i)) (1 / 1800))"
    using pos step by blast
  have last: "min (safeDt dt) MAX_FRAME_DT \<noteq> 0 \<longrightarrow>
      0 < lv_remaining (loopAfter sub rng w dt 0)
      \<and> 0 < n
      \<and> min (lv_remaining (loopAfter sub rng w dt (n - 1))) (1 / 1800)
          = lv_remaining (loopAfter sub rng w dt (n - 1))"
  proof
    assume ne: "min (safeDt dt) MAX_FRAME_DT \<noteq> 0"
    with nn have p0: "0 < lv_remaining (loopAfter sub rng w dt 0)"
      unfolding r0 by linarith
    have n0: "0 < n"
    proof (rule ccontr)
      assume "\<not> 0 < n"
      then have "n = 0"
        by simp
      with zero p0 show False
        by simp
    qed
    from p0 n0 last_run_takes_all [OF assms n0 zero]
    show "0 < lv_remaining (loopAfter sub rng w dt 0)
      \<and> 0 < n
      \<and> min (lv_remaining (loopAfter sub rng w dt (n - 1))) (1 / 1800)
          = lv_remaining (loopAfter sub rng w dt (n - 1))"
      by blast
  qed
  from n loop zero each last have "\<exists>n\<le>91.
        subStepLoop sub rng (loopAfter sub rng w dt 0) = Some (loopAfter sub rng w dt n)
        \<and> lv_remaining (loopAfter sub rng w dt n) = 0
        \<and> (\<forall>i<n.
              0 < lv_remaining (loopAfter sub rng w dt i)
              \<and> lv_remaining (loopAfter sub rng w dt (Suc i))
                  = sub (lv_remaining (loopAfter sub rng w dt i))
                      (min (lv_remaining (loopAfter sub rng w dt i)) (1 / 1800)))
        \<and> (min (safeDt dt) MAX_FRAME_DT \<noteq> 0 \<longrightarrow>
              0 < lv_remaining (loopAfter sub rng w dt 0)
              \<and> 0 < n
              \<and> min (lv_remaining (loopAfter sub rng w dt (n - 1))) (1 / 1800)
                  = lv_remaining (loopAfter sub rng w dt (n - 1)))"
    by (intro exI [of _ n] conjI)
  with nn r0 show ?thesis
    by blast
qed

theorem subStepLoop_terminates_witness:
  "rounded_subtraction coarse_sub
   \<and> min (safeDt (Finite (1 / 900))) MAX_FRAME_DT \<noteq> 0
   \<and> subStepLoop coarse_sub zero_samples
         (loopAfter coarse_sub zero_samples world0 (Finite (1 / 900)) 0)
       = Some (loopAfter coarse_sub zero_samples world0 (Finite (1 / 900)) 3)
   \<and> 0 < lv_remaining (loopAfter coarse_sub zero_samples world0 (Finite (1 / 900)) 0)
   \<and> 0 < lv_remaining (loopAfter coarse_sub zero_samples world0 (Finite (1 / 900)) 2)
   \<and> lv_remaining (loopAfter coarse_sub zero_samples world0 (Finite (1 / 900)) 3) = 0"
proof -
  let ?LA = "loopAfter coarse_sub zero_samples world0 (Finite (1 / 900))"
  have ne: "min (safeDt (Finite (1 / 900))) MAX_FRAME_DT \<noteq> 0"
    by (simp add: safeDt_def MAX_FRAME_DT_def)
  from subStepLoop_terminates [OF coarse_rounded, of "Finite (1 / 900)" zero_samples world0]
  obtain n where loop: "subStepLoop coarse_sub zero_samples (?LA 0) = Some (?LA n)"
    and zero: "lv_remaining (?LA n) = 0"
    and pos: "\<forall>i<n. 0 < lv_remaining (?LA i)"
    by blast
  from zero pos have "n = 3"
    by (rule first_zero_unique [OF _ _ coarse_run_zero coarse_run_positive])
  with loop have "subStepLoop coarse_sub zero_samples (?LA 0) = Some (?LA 3)"
    by simp
  moreover have "0 < lv_remaining (?LA 0)" "0 < lv_remaining (?LA 2)"
    using coarse_run_positive [of zero_samples world0] by simp_all
  ultimately show ?thesis
    using coarse_rounded ne coarse_run_zero by blast
qed

end
